theory Spec2Isabelle
  imports Complex_Main "HOL-Library.Monad_Syntax"
begin

section \<open>Training driver (src/trainer\_unet.py)\<close>

text \<open>
  The driver is modelled by explicit state passing. Everything that belongs to the tensor
  framework (the network's forward pass, the two loss functions, the optimizers) is a
  field of the record \<open>torch\<close>; the driver only composes these. Python floats are modelled
  by real numbers, Python integers by \<open>int\<close> and \<open>nat\<close>. Console and text-log output of the
  loops (formatted floats) is not part of the state; the scalar event stream and the
  checkpoint files are.
\<close>

datatype error =
    UnboundLocalError
  | ZeroDivisionError
  | ValueError
  | RuntimeError
  | IndexError

record host =
  cuda_available :: bool
  xpu_available :: bool

record args =
  base_lr :: real
  num_classes :: nat
  max_epochs :: int

text \<open>
  \<open>forward w x\<close> is \<open>model(x)\<close> with weights \<open>w\<close>; \<open>sgd_step lr buf loss w\<close> and \<open>adamw_step\<close>
  are \<open>loss.backward(); optimizer.step()\<close> for a parameter group whose learning rate is
  \<open>lr\<close>, with optimizer buffers \<open>buf\<close>; \<open>unsqueeze_float\<close> is \<open>x.unsqueeze(1).float()\<close>.
\<close>

record ('p, 's, 'x, 'y, 'o) torch =
  forward :: "'p \<Rightarrow> 'x \<Rightarrow> 'o"
  ce_loss :: "'o \<Rightarrow> 'y \<Rightarrow> real"
  dice_loss :: "nat \<Rightarrow> 'o \<Rightarrow> 'y \<Rightarrow> real"
  sgd_step :: "real \<Rightarrow> 's \<Rightarrow> ('p \<Rightarrow> real) \<Rightarrow> 'p \<Rightarrow> 'p \<times> 's"
  adamw_step :: "real \<Rightarrow> 's \<Rightarrow> ('p \<Rightarrow> real) \<Rightarrow> 'p \<Rightarrow> 'p \<times> 's"
  unsqueeze_float :: "'x \<Rightarrow> 'x"
  opt_init :: "'s"

text \<open>
  A \<open>DataLoader\<close>: \<open>len\<close> batches per epoch; with \<open>shuffle=True\<close> the batch at position \<open>i\<close>
  depends on the epoch.
\<close>

record ('x, 'y) loader =
  len :: nat
  batch :: "int \<Rightarrow> nat \<Rightarrow> 'x \<times> 'y"

record ('p, 's) train_state =
  weights :: 'p
  opt_lr :: real
  opt_buf :: 's
  iter_num :: nat
  scalars :: "((string \<times> nat) \<times> real) list"
  backprops :: "real list"
  saved :: "(string \<times> 'p) list"

text \<open>\<open>writer.add_scalar(tag, value, step)\<close> appends to the event stream.\<close>

definition add_scalar ::
  "string \<Rightarrow> real \<Rightarrow> nat \<Rightarrow> ('p, 's) train_state \<Rightarrow> ('p, 's) train_state" where
  "add_scalar tag v n st = st\<lparr>scalars := scalars st @ [((tag, n), v)]\<rparr>"

text \<open>The value a reader of the event stream sees for a tag at a step: the latest one.\<close>

definition scalar_at :: "('p, 's) train_state \<Rightarrow> string \<Rightarrow> nat \<Rightarrow> real option" where
  "scalar_at st tag n = map_of (rev (scalars st)) (tag, n)"

text \<open>\<open>torch.save(model.state_dict(), path)\<close>.\<close>

definition torch_save :: "string \<Rightarrow> ('p, 's) train_state \<Rightarrow> ('p, 's) train_state" where
  "torch_save path st = st\<lparr>saved := saved st @ [(path, weights st)]\<rparr>"

subsection \<open>Learning-rate schedule\<close>

text \<open>
  \<open>lr_ = base_lr * (1.0 - iter_num / max_iterations) ** 0.9\<close>. The division raises
  \<open>ZeroDivisionError\<close> when \<open>max_iterations\<close> is 0. Inside the loops
  \<open>iter_num < max_iterations\<close>, so the base of the power lies in \<open>(0, 1]\<close>.
\<close>

definition lr_value :: "real \<Rightarrow> nat \<Rightarrow> int \<Rightarrow> real" where
  "lr_value b i m = b * (1 - real i / real_of_int m) powr (9 / 10)"

definition poly_lr :: "real \<Rightarrow> nat \<Rightarrow> int \<Rightarrow> error + real" where
  "poly_lr b i m = (if m = 0 then Inl ZeroDivisionError else Inr (lr_value b i m))"

subsection \<open>Checkpoint file names\<close>

definition digit_char :: "nat \<Rightarrow> char" where
  "digit_char d = ''0123456789'' ! d"

function str_nat :: "nat \<Rightarrow> string" where
  "str_nat n = (if n < 10 then [digit_char n] else str_nat (n div 10) @ [digit_char (n mod 10)])"
  by pat_completeness auto
termination
  by (relation "measure id") auto

declare str_nat.simps [simp del]

definition str_int :: "int \<Rightarrow> string" where
  "str_int i = (if i < 0 then CHR ''-'' # str_nat (nat (- i)) else str_nat (nat i))"

text \<open>\<open>os.path.join(a, b)\<close> on a POSIX host.\<close>

definition os_path_join :: "string \<Rightarrow> string \<Rightarrow> string" where
  "os_path_join a b =
     (if b \<noteq> [] \<and> hd b = CHR ''/'' then b
      else if a = [] \<or> last a = CHR ''/'' then a @ b
      else a @ ''/'' @ b)"

definition save_mode_path :: "string \<Rightarrow> int \<Rightarrow> string" where
  "save_mode_path snapshot_path epoch_num =
     os_path_join snapshot_path (''epoch_'' @ str_int epoch_num @ ''.pth'')"

subsection \<open>Device check of \<open>trainer_synapse\<close>\<close>

text \<open>
  Lines 135-140: the lines printed by the check and the binding of the local variable
  \<open>device\<close> after it (\<open>None\<close>: unbound).
\<close>

definition device_check :: "host \<Rightarrow> string list \<times> string option" where
  "device_check h =
     (if cuda_available h then ([], Some ''cuda'')
      else if xpu_available h then ([], Some ''xpu'')
      else ([''Neither CUDA nor XPU devices are available to demonstrate profiling on acceleration devices''],
            None))"

subsection \<open>\<open>trainer_synapse\<close>\<close>

text \<open>
  One pass of the inner loop body (lines 170-201). \<open>image_batch.cuda()\<close> raises on a host
  without CUDA.
\<close>

definition synapse_step ::
  "('p, 's, 'x, 'y, 'o) torch \<Rightarrow> host \<Rightarrow> args \<Rightarrow> int \<Rightarrow> ('p, 's) train_state \<Rightarrow> 'x \<times> 'y
     \<Rightarrow> error + ('p, 's) train_state" where
  "synapse_step tc h a max_iterations st sampled_batch =
     (case sampled_batch of (image_batch, label_batch) \<Rightarrow>
       if \<not> cuda_available h then Inl RuntimeError
       else
         let outputs = forward tc (weights st) image_batch;
             loss_ce = ce_loss tc outputs label_batch;
             loss_dice = dice_loss tc (num_classes a) outputs label_batch;
             loss = 0.4 * loss_ce + 0.6 * loss_dice;
             loss_fn = (\<lambda>w. 0.4 * ce_loss tc (forward tc w image_batch) label_batch
                            + 0.6 * dice_loss tc (num_classes a) (forward tc w image_batch) label_batch);
             (w', buf') = sgd_step tc (opt_lr st) (opt_buf st) loss_fn (weights st);
             st1 = st\<lparr>weights := w', opt_buf := buf', backprops := backprops st @ [loss]\<rparr>
         in case poly_lr (base_lr a) (iter_num st1) max_iterations of
              Inl e \<Rightarrow> Inl e
            | Inr lr_ \<Rightarrow>
                let st2 = add_scalar ''info/lr'' lr_ (iter_num st1) st1;
                    st3 = add_scalar ''info/total_loss'' loss (iter_num st2) st2;
                    st4 = add_scalar ''info/dice_loss'' loss_dice (iter_num st3) st3;
                    st5 = add_scalar ''info/loss_ce'' loss_ce (iter_num st4) st4
                in Inr (st5\<lparr>iter_num := iter_num st5 + 1\<rparr>))"

text \<open>\<open>for i_batch, sampled_batch in enumerate(trainloader)\<close>.\<close>

fun synapse_batches ::
  "('p, 's, 'x, 'y, 'o) torch \<Rightarrow> host \<Rightarrow> args \<Rightarrow> int \<Rightarrow> ('x \<times> 'y) list \<Rightarrow> ('p, 's) train_state
     \<Rightarrow> error + ('p, 's) train_state" where
  "synapse_batches tc h a m [] st = Inr st"
| "synapse_batches tc h a m (b # bs) st =
     (case synapse_step tc h a m st b of
        Inl e \<Rightarrow> Inl e
      | Inr st' \<Rightarrow> synapse_batches tc h a m bs st')"

text \<open>
  Lines 214-224, after the inner loop: the two checkpoint tests; the flag says
  whether the epoch loop breaks.
\<close>

definition synapse_checkpoint ::
  "string \<Rightarrow> int \<Rightarrow> int \<Rightarrow> ('p, 's) train_state \<Rightarrow> ('p, 's) train_state \<times> bool" where
  "synapse_checkpoint snapshot_path max_epoch epoch_num st =
     (let st1 = (if epoch_num > 80 then torch_save (save_mode_path snapshot_path epoch_num) st else st)
      in if epoch_num \<ge> max_epoch - 1
         then (torch_save (save_mode_path snapshot_path epoch_num) st1, True)
         else (st1, False))"

text \<open>\<open>for epoch_num in iterator\<close>, over the epochs still to run.\<close>

fun synapse_epochs ::
  "('p, 's, 'x, 'y, 'o) torch \<Rightarrow> ('x, 'y) loader \<Rightarrow> host \<Rightarrow> args \<Rightarrow> string \<Rightarrow> int list
     \<Rightarrow> ('p, 's) train_state \<Rightarrow> error + ('p, 's) train_state" where
  "synapse_epochs tc ld h a snapshot_path [] st = Inr st"
| "synapse_epochs tc ld h a snapshot_path (epoch_num # es) st =
     (case synapse_batches tc h a (max_epochs a * int (len ld))
             (map (batch ld epoch_num) [0..<len ld]) st of
        Inl e \<Rightarrow> Inl e
      | Inr st1 \<Rightarrow>
          (case synapse_checkpoint snapshot_path (max_epochs a) epoch_num st1 of
             (st2, True) \<Rightarrow> Inr st2
           | (st2, False) \<Rightarrow> synapse_epochs tc ld h a snapshot_path es st2))"

text \<open>
  \<open>trainer_synapse(args, model, snapshot_path)\<close>; \<open>w0\<close> are the weights of \<open>model\<close>.
  \<open>print(device)\<close> raises when the device check left \<open>device\<close> unbound; the \<open>SGD\<close>
  constructor rejects a negative learning rate.
\<close>

definition trainer_synapse ::
  "('p, 's, 'x, 'y, 'o) torch \<Rightarrow> ('x, 'y) loader \<Rightarrow> host \<Rightarrow> args \<Rightarrow> 'p \<Rightarrow> string
     \<Rightarrow> error + ('p, 's) train_state" where
  "trainer_synapse tc trainloader h a w0 snapshot_path =
     (case snd (device_check h) of
        None \<Rightarrow> Inl UnboundLocalError
      | Some device \<Rightarrow>
          if base_lr a < 0 then Inl ValueError
          else synapse_epochs tc trainloader h a snapshot_path [0..max_epochs a - 1]
                 \<lparr>weights = w0, opt_lr = base_lr a, opt_buf = opt_init tc, iter_num = 0,
                  scalars = [], backprops = [], saved = []\<rparr>)"

subsection \<open>\<open>trainer_assd\<close>\<close>

text \<open>The inner loop body, lines 276-304.\<close>

definition assd_step ::
  "('p, 's, 'x, 'y, 'o) torch \<Rightarrow> host \<Rightarrow> args \<Rightarrow> int \<Rightarrow> ('p, 's) train_state \<Rightarrow> 'x \<times> 'y
     \<Rightarrow> error + ('p, 's) train_state" where
  "assd_step tc h a max_iterations st sampled_batch =
     (case sampled_batch of (image_batch, label_batch) \<Rightarrow>
       if \<not> cuda_available h then Inl RuntimeError
       else
         let outputs = forward tc (weights st) (unsqueeze_float tc image_batch);
             loss_ce = ce_loss tc outputs label_batch;
             loss_dice = dice_loss tc (num_classes a) outputs label_batch;
             loss = 0.4 * loss_ce + 0.6 * loss_dice;
             loss_fn = (\<lambda>w. 0.4 * ce_loss tc (forward tc w (unsqueeze_float tc image_batch)) label_batch
                            + 0.6 * dice_loss tc (num_classes a)
                                (forward tc w (unsqueeze_float tc image_batch)) label_batch);
             (w', buf') = adamw_step tc (opt_lr st) (opt_buf st) loss_fn (weights st);
             st1 = st\<lparr>weights := w', opt_buf := buf', backprops := backprops st @ [loss]\<rparr>
         in case poly_lr (base_lr a) (iter_num st1) max_iterations of
              Inl e \<Rightarrow> Inl e
            | Inr lr_ \<Rightarrow>
                let st2 = add_scalar ''info/lr'' lr_ (iter_num st1) st1;
                    st3 = add_scalar ''info/total_loss'' loss (iter_num st2) st2;
                    st4 = add_scalar ''info/dice_loss'' loss_dice (iter_num st3) st3;
                    st5 = add_scalar ''info/loss_ce'' loss_ce (iter_num st4) st4
                in Inr (st5\<lparr>iter_num := iter_num st5 + 1\<rparr>))"

fun assd_batches ::
  "('p, 's, 'x, 'y, 'o) torch \<Rightarrow> host \<Rightarrow> args \<Rightarrow> int \<Rightarrow> ('x \<times> 'y) list \<Rightarrow> ('p, 's) train_state
     \<Rightarrow> error + ('p, 's) train_state" where
  "assd_batches tc h a m [] st = Inr st"
| "assd_batches tc h a m (b # bs) st =
     (case assd_step tc h a m st b of
        Inl e \<Rightarrow> Inl e
      | Inr st' \<Rightarrow> assd_batches tc h a m bs st')"

text \<open>Lines 315-325.\<close>

definition assd_checkpoint ::
  "string \<Rightarrow> int \<Rightarrow> int \<Rightarrow> ('p, 's) train_state \<Rightarrow> ('p, 's) train_state \<times> bool" where
  "assd_checkpoint snapshot_path max_epoch epoch_num st =
     (let st1 = (if epoch_num > 80 then torch_save (save_mode_path snapshot_path epoch_num) st else st)
      in if epoch_num \<ge> max_epoch - 1
         then (torch_save (save_mode_path snapshot_path epoch_num) st1, True)
         else (st1, False))"

fun assd_epochs ::
  "('p, 's, 'x, 'y, 'o) torch \<Rightarrow> ('x, 'y) loader \<Rightarrow> host \<Rightarrow> args \<Rightarrow> string \<Rightarrow> int list
     \<Rightarrow> ('p, 's) train_state \<Rightarrow> error + ('p, 's) train_state" where
  "assd_epochs tc ld h a snapshot_path [] st = Inr st"
| "assd_epochs tc ld h a snapshot_path (epoch_num # es) st =
     (case assd_batches tc h a (max_epochs a * int (len ld))
             (map (batch ld epoch_num) [0..<len ld]) st of
        Inl e \<Rightarrow> Inl e
      | Inr st1 \<Rightarrow>
          (case assd_checkpoint snapshot_path (max_epochs a) epoch_num st1 of
             (st2, True) \<Rightarrow> Inr st2
           | (st2, False) \<Rightarrow> assd_epochs tc ld h a snapshot_path es st2))"

text \<open>\<open>trainer_assd(args, model, snapshot_path)\<close>; the \<open>AdamW\<close> constructor rejects a
  negative learning rate.\<close>

definition trainer_assd ::
  "('p, 's, 'x, 'y, 'o) torch \<Rightarrow> ('x, 'y) loader \<Rightarrow> host \<Rightarrow> args \<Rightarrow> 'p \<Rightarrow> string
     \<Rightarrow> error + ('p, 's) train_state" where
  "trainer_assd tc trainloader h a w0 snapshot_path =
     (if base_lr a < 0 then Inl ValueError
      else assd_epochs tc trainloader h a snapshot_path [0..max_epochs a - 1]
             \<lparr>weights = w0, opt_lr = base_lr a, opt_buf = opt_init tc, iter_num = 0,
              scalars = [], backprops = [], saved = []\<rparr>)"

subsection \<open>What a run has logged\<close>

text \<open>
  The bookkeeping of a run after \<open>iter_num\<close> iterations, for a schedule over \<open>m\<close> steps:
  one backpropagated value per iteration, the optimizer's learning rate as constructed,
  and for every iteration the four scalars of the event stream.
\<close>

definition logged_ok :: "args \<Rightarrow> int \<Rightarrow> ('p, 's) train_state \<Rightarrow> bool" where
  "logged_ok a m st \<longleftrightarrow>
     length (backprops st) = iter_num st \<and> opt_lr st = base_lr a \<and>
     (\<forall>k<iter_num st. \<exists>c d.
        scalar_at st ''info/loss_ce'' k = Some c \<and>
        scalar_at st ''info/dice_loss'' k = Some d \<and>
        scalar_at st ''info/total_loss'' k = Some (0.4 * c + 0.6 * d) \<and>
        backprops st ! k = 0.4 * c + 0.6 * d \<and>
        scalar_at st ''info/lr'' k = Some (lr_value (base_lr a) k m))"

subsection \<open>A small concrete framework\<close>

text \<open>
  A one-weight model with an optimizer whose buffer records the learning rate of every
  step it takes, and a loader of two batches per epoch; used to run the driver on
  concrete inputs.
\<close>

definition demo_torch :: "(real, real list, real, real, real) torch" where
  "demo_torch =
     \<lparr>forward = (\<lambda>w x. w * x),
      ce_loss = (\<lambda>out y. (out - y) * (out - y)),
      dice_loss = (\<lambda>n out y. \<bar>out - y\<bar>),
      sgd_step = (\<lambda>lr buf f w. (w - lr * f w, buf @ [lr])),
      adamw_step = (\<lambda>lr buf f w. (w - lr * f w / 2, buf @ [lr])),
      unsqueeze_float = (\<lambda>x. x),
      opt_init = []\<rparr>"

definition demo_loader :: "(real, real) loader" where
  "demo_loader = \<lparr>len = 2, batch = (\<lambda>e i. (real i + 1, 1))\<rparr>"

definition demo_host :: host where
  "demo_host = \<lparr>cuda_available = True, xpu_available = False\<rparr>"

definition cpu_host :: host where
  "cpu_host = \<lparr>cuda_available = False, xpu_available = False\<rparr>"

definition demo_args :: args where
  "demo_args = \<lparr>base_lr = 1 / 100, num_classes = 2, max_epochs = 1\<rparr>"

definition args90 :: args where
  "args90 = \<lparr>base_lr = 1 / 100, num_classes = 2, max_epochs = 90\<rparr>"

section \<open>Network shapes (src/unet/unet\_stvit.py)\<close>

text \<open>
  A tensor is represented by its shape \<open>(N, C, H, W)\<close>. Each layer of the framework is
  modelled by the output-shape rule of its documentation together with the checks the
  framework makes when the layer runs; a layer that raises returns \<open>None\<close>.
\<close>

type_synonym shape = "nat \<times> nat \<times> nat \<times> nat"

text \<open>
  \<open>nn.Conv2d(in_c, out_c, kernel_size, padding)\<close>, stride 1: the input must have the
  channels the layer was built for, and the kernel must fit into the padded input.
\<close>

definition Conv2d :: "nat \<Rightarrow> nat \<Rightarrow> nat \<Rightarrow> nat \<Rightarrow> shape \<Rightarrow> shape option" where
  "Conv2d in_c out_c kernel_size padding x =
     (case x of (n, c, h, w) \<Rightarrow>
        if c \<noteq> in_c then None
        else if h + 2 * padding < kernel_size \<or> w + 2 * padding < kernel_size then None
        else Some (n, out_c, (h + 2 * padding - (kernel_size - 1) - 1) div 1 + 1,
                             (w + 2 * padding - (kernel_size - 1) - 1) div 1 + 1))"

text \<open>
  \<open>nn.BatchNorm2d(num_features)\<close>. In training mode (the mode of a new module, and the one
  \<open>model.train()\<close> sets) the layer raises \<open>ValueError\<close> when a channel holds one value only.
\<close>

definition BatchNorm2d :: "bool \<Rightarrow> nat \<Rightarrow> shape \<Rightarrow> shape option" where
  "BatchNorm2d training num_features x =
     (case x of (n, c, h, w) \<Rightarrow>
        if c \<noteq> num_features then None
        else if training \<and> n * h * w = 1 then None
        else Some x)"

definition ReLU :: "shape \<Rightarrow> shape option" where
  "ReLU x = Some x"

text \<open>
  \<open>nn.MaxPool2d((k, k))\<close>: the stride is the kernel size; an input smaller than the kernel
  gives an empty output, which the layer rejects.
\<close>

definition MaxPool2d :: "nat \<Rightarrow> shape \<Rightarrow> shape option" where
  "MaxPool2d k x =
     (case x of (n, c, h, w) \<Rightarrow>
        if h < k \<or> w < k then None
        else Some (n, c, (h - (k - 1) - 1) div k + 1, (w - (k - 1) - 1) div k + 1))"

text \<open>
  \<open>nn.ConvTranspose2d(in_c, out_c, kernel_size, stride, padding)\<close>, on a non-empty input.
\<close>

definition ConvTranspose2d :: "nat \<Rightarrow> nat \<Rightarrow> nat \<Rightarrow> nat \<Rightarrow> nat \<Rightarrow> shape \<Rightarrow> shape option" where
  "ConvTranspose2d in_c out_c kernel_size stride padding x =
     (case x of (n, c, h, w) \<Rightarrow>
        if c \<noteq> in_c then None
        else if h = 0 \<or> w = 0 then None
        else if (h - 1) * stride + (kernel_size - 1) + 1 \<le> 2 * padding
              \<or> (w - 1) * stride + (kernel_size - 1) + 1 \<le> 2 * padding then None
        else Some (n, out_c, (h - 1) * stride + (kernel_size - 1) + 1 - 2 * padding,
                             (w - 1) * stride + (kernel_size - 1) + 1 - 2 * padding))"

text \<open>\<open>torch.cat([x, skip], axis=1)\<close>: all extents but the channels must agree.\<close>

definition cat1 :: "shape \<Rightarrow> shape \<Rightarrow> shape option" where
  "cat1 x skip =
     (case x of (n, c, h, w) \<Rightarrow> case skip of (n', c', h', w') \<Rightarrow>
        if n = n' \<and> h = h' \<and> w = w' then Some (n, c + c', h, w) else None)"

text \<open>The blocks; \<open>training\<close> is the mode of the module.\<close>

definition conv_block :: "bool \<Rightarrow> nat \<Rightarrow> nat \<Rightarrow> shape \<Rightarrow> shape option" where
  "conv_block training in_c out_c inputs = do {
     x \<leftarrow> Conv2d in_c out_c 3 1 inputs;
     x \<leftarrow> BatchNorm2d training out_c x;
     x \<leftarrow> ReLU x;
     x \<leftarrow> Conv2d out_c out_c 3 1 x;
     x \<leftarrow> BatchNorm2d training out_c x;
     x \<leftarrow> ReLU x;
     Some x
   }"

definition encoder_block :: "bool \<Rightarrow> nat \<Rightarrow> nat \<Rightarrow> shape \<Rightarrow> (shape \<times> shape) option" where
  "encoder_block training in_c out_c inputs = do {
     x \<leftarrow> conv_block training in_c out_c inputs;
     p \<leftarrow> MaxPool2d 2 x;
     Some (x, p)
   }"

definition decoder_block :: "bool \<Rightarrow> nat \<Rightarrow> nat \<Rightarrow> shape \<Rightarrow> shape \<Rightarrow> shape option" where
  "decoder_block training in_c out_c inputs skip = do {
     x \<leftarrow> ConvTranspose2d in_c out_c 2 2 0 inputs;
     x \<leftarrow> cat1 x skip;
     x \<leftarrow> conv_block training (out_c + out_c) out_c x;
     Some x
   }"

text \<open>
  The constructor arguments of \<open>BasicLayer\<close>. The class itself (\<open>unet/stvit.py\<close>) is not
  among the sources; its effect on shapes is a parameter \<open>basic_layer\<close> of the forward pass.
\<close>

record basic_layer_args =
  num_layers :: nat
  dim :: "nat list"
  mamba_dim :: nat
  n_iter :: nat
  stoken_size :: "nat list"
  num_heads :: nat

text \<open>
  Modelled from the spec: \<open>BasicLayer\<close> of \<open>unet/stvit.py\<close>, which is not among the
  sources. The spec describes it as a block that refines the feature map of its stage;
  this one accepts the inputs with the channel count \<open>dim\<close> names, returns a
  tensor of the shape of its input, and raises on any other input.
\<close>

definition basic_layer_keep :: "basic_layer_args \<Rightarrow> shape \<Rightarrow> shape option" where
  "basic_layer_keep cfg x =
     (case x of (n, c, h, w) \<Rightarrow> if dim cfg = [c, c] then Some x else None)"

text \<open>\<open>UNet_STA(n_in, n_class).forward(inputs)\<close>, for a module in the mode \<open>training\<close>.\<close>

definition UNet_STA_forward ::
  "(basic_layer_args \<Rightarrow> shape \<Rightarrow> shape option) \<Rightarrow> bool \<Rightarrow> nat \<Rightarrow> nat \<Rightarrow> shape \<Rightarrow> shape option" where
  "UNet_STA_forward basic_layer training n_in n_class inputs = do {
     (s1, p1) \<leftarrow> encoder_block training n_in 64 inputs;
     p1 \<leftarrow> basic_layer \<lparr>num_layers = 1, dim = [64, 64], mamba_dim = 28, n_iter = 1,
                         stoken_size = [4, 4], num_heads = 2\<rparr> p1;
     (s2, p2) \<leftarrow> encoder_block training 64 128 p1;
     p2 \<leftarrow> basic_layer \<lparr>num_layers = 2, dim = [128, 128], mamba_dim = 28, n_iter = 1,
                         stoken_size = [2, 2], num_heads = 4\<rparr> p2;
     (s3, p3) \<leftarrow> encoder_block training 128 256 p2;
     p3 \<leftarrow> basic_layer \<lparr>num_layers = 3, dim = [256, 256], mamba_dim = 28, n_iter = 1,
                         stoken_size = [1, 1], num_heads = 8\<rparr> p3;
     (s4, p4) \<leftarrow> encoder_block training 256 512 p3;
     p4 \<leftarrow> basic_layer \<lparr>num_layers = 4, dim = [512, 512], mamba_dim = 14, n_iter = 1,
                         stoken_size = [1, 1], num_heads = 16\<rparr> p4;
     b \<leftarrow> conv_block training 512 1024 p4;
     d1 \<leftarrow> decoder_block training 1024 512 b s4;
     d1 \<leftarrow> basic_layer \<lparr>num_layers = 4, dim = [512, 512], mamba_dim = 28, n_iter = 1,
                         stoken_size = [1, 1], num_heads = 16\<rparr> d1;
     d2 \<leftarrow> decoder_block training 512 256 d1 s3;
     d2 \<leftarrow> basic_layer \<lparr>num_layers = 3, dim = [256, 256], mamba_dim = 56, n_iter = 1,
                         stoken_size = [1, 1], num_heads = 8\<rparr> d2;
     d3 \<leftarrow> decoder_block training 256 128 d2 s2;
     d3 \<leftarrow> basic_layer \<lparr>num_layers = 2, dim = [128, 128], mamba_dim = 56, n_iter = 1,
                         stoken_size = [2, 2], num_heads = 4\<rparr> d3;
     d4 \<leftarrow> decoder_block training 128 64 d3 s1;
     d4 \<leftarrow> basic_layer \<lparr>num_layers = 1, dim = [64, 64], mamba_dim = 56, n_iter = 1,
                         stoken_size = [4, 4], num_heads = 2\<rparr> d4;
     outputs \<leftarrow> Conv2d 64 n_class 1 0 d4;
     Some outputs
   }"

section \<open>Feature-distillation loss (class \<open>KDloss\<close> of src/trainer\_unet.py)\<close>

text \<open>
  A four-dimensional tensor is its four extents and its entries; entries are real numbers.
  A scalar result is a number or \<open>nan\<close> (the mean of no entries). A call that raises
  returns \<open>None\<close>.
\<close>

record tensor =
  dimN :: nat
  dimC :: nat
  dimH :: nat
  dimW :: nat
  elem :: "nat \<Rightarrow> nat \<Rightarrow> nat \<Rightarrow> nat \<Rightarrow> real"

datatype scalar = NaN | Num real

fun sc_add :: "scalar \<Rightarrow> scalar \<Rightarrow> scalar" where
  "sc_add (Num x) (Num y) = Num (x + y)"
| "sc_add _ _ = NaN"

fun sc_div :: "scalar \<Rightarrow> real \<Rightarrow> scalar" where
  "sc_div (Num x) k = Num (x / k)"
| "sc_div NaN k = NaN"

fun sc_mul :: "scalar \<Rightarrow> real \<Rightarrow> scalar" where
  "sc_mul (Num x) k = Num (x * k)"
| "sc_mul NaN k = NaN"

text \<open>\<open>xs[i]\<close> on a Python list, for \<open>i \<ge> 0\<close>.\<close>

definition py_get :: "'a list \<Rightarrow> nat \<Rightarrow> 'a option" where
  "py_get xs i = (if i < length xs then Some (xs ! i) else None)"

text \<open>\<open>f[:, idx, :, :]\<close> for a list of channel indices, and \<open>torch.index_select(f, 1, idx)\<close>.\<close>

definition select_channels :: "nat list \<Rightarrow> tensor \<Rightarrow> tensor option" where
  "select_channels idx f =
     (if \<forall>i \<in> set idx. i < dimC f
      then Some (f\<lparr>dimC := length idx, elem := \<lambda>n c. elem f n (idx ! c)\<rparr>)
      else None)"

text \<open>\<open>f[:, lo:hi, :, :]\<close> for \<open>lo \<le> hi \<le> f.shape[1]\<close>.\<close>

definition slice_channels :: "nat \<Rightarrow> nat \<Rightarrow> tensor \<Rightarrow> tensor" where
  "slice_channels lo hi f = f\<lparr>dimC := hi - lo, elem := \<lambda>n c. elem f n (lo + c)\<rparr>"

text \<open>Broadcasting of one extent, and the index read in a tensor expanded along it.\<close>

definition broadcast_dim :: "nat \<Rightarrow> nat \<Rightarrow> nat option" where
  "broadcast_dim a b =
     (if a = b then Some a else if a = 1 then Some b else if b = 1 then Some a else None)"

definition bidx :: "nat \<Rightarrow> nat \<Rightarrow> nat" where
  "bidx d i = (if d = 1 then 0 else i)"

text \<open>
  \<open>F.mse_loss(a, b)\<close>: the two tensors are broadcast against each other (an error when
  they cannot be), and the squared differences are averaged.
\<close>

definition mse_loss :: "tensor \<Rightarrow> tensor \<Rightarrow> scalar option" where
  "mse_loss a b = do {
     n \<leftarrow> broadcast_dim (dimN a) (dimN b);
     c \<leftarrow> broadcast_dim (dimC a) (dimC b);
     h \<leftarrow> broadcast_dim (dimH a) (dimH b);
     w \<leftarrow> broadcast_dim (dimW a) (dimW b);
     Some (if n * c * h * w = 0 then NaN
           else Num ((\<Sum>i = 0..<n. \<Sum>j = 0..<c. \<Sum>k = 0..<h. \<Sum>l = 0..<w.
                        (elem a (bidx (dimN a) i) (bidx (dimC a) j) (bidx (dimH a) k) (bidx (dimW a) l)
                         - elem b (bidx (dimN b) i) (bidx (dimC b) j) (bidx (dimH b) k) (bidx (dimW b) l))\<^sup>2)
                     / real (n * c * h * w)))
   }"

text \<open>
  \<open>F.adaptive_avg_pool2d(f, (oh, ow))\<close>: output entry \<open>(i, j)\<close> is the mean of the window
  of rows \<open>floor(i * H / oh)\<close> up to \<open>ceil((i + 1) * H / oh)\<close> and the columns alike. The
  input must have non-zero extents but for the batch.
\<close>

definition win_start :: "nat \<Rightarrow> nat \<Rightarrow> nat \<Rightarrow> nat" where
  "win_start i insz outsz = (i * insz) div outsz"

definition win_end :: "nat \<Rightarrow> nat \<Rightarrow> nat \<Rightarrow> nat" where
  "win_end i insz outsz = ((i + 1) * insz + outsz - 1) div outsz"

definition adaptive_avg_pool2d :: "tensor \<Rightarrow> nat \<Rightarrow> nat \<Rightarrow> tensor option" where
  "adaptive_avg_pool2d f oh ow =
     (if dimC f = 0 \<or> dimH f = 0 \<or> dimW f = 0 then None
      else Some (f\<lparr>dimH := oh, dimW := ow,
        elem := \<lambda>n c i j.
          (\<Sum>h = win_start i (dimH f) oh..<win_end i (dimH f) oh.
             \<Sum>w = win_start j (dimW f) ow..<win_end j (dimW f) ow. elem f n c h w)
          / real ((win_end i (dimH f) oh - win_start i (dimH f) oh)
                  * (win_end j (dimW f) ow - win_start j (dimW f) ow))\<rparr>))"

text \<open>\<open>F.normalize(f, p=2, dim=(2,3))\<close>: each plane divided by its norm, at least \<open>1e-12\<close>.\<close>

definition normalize :: "tensor \<Rightarrow> tensor" where
  "normalize f = f\<lparr>elem := \<lambda>n c h w.
     elem f n c h w
     / max (sqrt (\<Sum>k = 0..<dimH f. \<Sum>l = 0..<dimW f. (elem f n c k l)\<^sup>2)) (1 / 10 ^ 12)\<rparr>"

text \<open>\<open>f.mean([0, 2, 3])\<close>: one mean per channel.\<close>

definition channel_means :: "tensor \<Rightarrow> real list" where
  "channel_means f =
     map (\<lambda>c. (\<Sum>n = 0..<dimN f. \<Sum>h = 0..<dimH f. \<Sum>w = 0..<dimW f. elem f n c h w)
               / real (dimN f * dimH f * dimW f)) [0..<dimC f]"

text \<open>
  The indices returned by \<open>torch.sort(xs, dim=0, descending=True)\<close>. The framework leaves
  the order among equal keys open; the model keeps them in their original order.
\<close>

definition argsort_desc :: "real list \<Rightarrow> nat list" where
  "argsort_desc xs = sort_key (\<lambda>i. - (xs ! i)) [0..<length xs]"

text \<open>\<open>KDloss.intra_fd(f_s)\<close>.\<close>

definition intra_fd :: "tensor \<Rightarrow> scalar option" where
  "intra_fd f_s = do {
     let indices_s = argsort_desc (channel_means (normalize f_s));
     f_s \<leftarrow> select_channels indices_s f_s;
     mse_loss (slice_channels 0 (dimC f_s div 2) f_s)
              (slice_channels (dimC f_s div 2) (dimC f_s) f_s)
   }"

text \<open>
  \<open>KDloss.inter_fd(f_s, f_t)\<close>. The two channel selections \<open>idx_s\<close> and \<open>idx_t\<close> are the
  results of the two calls of \<open>random.sample\<close>: \<open>min(s_C, t_C)\<close> distinct channels of
  \<open>f_s\<close> and of \<open>f_t\<close>.
\<close>

definition inter_fd :: "nat list \<Rightarrow> nat list \<Rightarrow> tensor \<Rightarrow> tensor \<Rightarrow> scalar option" where
  "inter_fd idx_s idx_t f_s f_t = do {
     let s_H = dimH f_s;
     let t_H = dimH f_t;
     (f_s, f_t) \<leftarrow>
       (if s_H > t_H then do { p \<leftarrow> adaptive_avg_pool2d f_s t_H t_H; Some (p, f_t) }
        else if s_H < t_H then do { p \<leftarrow> adaptive_avg_pool2d f_t s_H s_H; Some (f_s, p) }
        else Some (f_s, f_t));
     a \<leftarrow> select_channels idx_s f_s;
     b \<leftarrow> select_channels idx_t f_t;
     mse_loss a b
   }"

text \<open>
  \<open>KDloss(lambda_x).forward(feature, feature_decoder, final_up)\<close>; \<open>rnd k\<close> is what the
  \<open>k\<close>-th call of \<open>random.sample\<close> returns.
\<close>

definition KDloss_forward ::
  "real \<Rightarrow> (nat \<Rightarrow> nat list) \<Rightarrow> tensor list \<Rightarrow> tensor list \<Rightarrow> tensor \<Rightarrow> scalar option" where
  "KDloss_forward lambda_x rnd feature feature_decoder final_up = do {
     f1_0 \<leftarrow> py_get feature 0;
     f2_0 \<leftarrow> py_get feature 1;
     f3_0 \<leftarrow> py_get feature 2;
     f4_0 \<leftarrow> py_get feature 3;
     f1_d_0 \<leftarrow> py_get feature_decoder 0;
     f2_d_0 \<leftarrow> py_get feature_decoder 1;
     f3_d_0 \<leftarrow> py_get feature_decoder 2;
     let final_layer = final_up;
     i1 \<leftarrow> intra_fd f1_0;
     i2 \<leftarrow> intra_fd f2_0;
     i3 \<leftarrow> intra_fd f3_0;
     i4 \<leftarrow> intra_fd f4_0;
     let loss = sc_div (sc_add (sc_add (sc_add i1 i2) i3) i4) 4;
     j1 \<leftarrow> intra_fd f1_d_0;
     j2 \<leftarrow> intra_fd f2_d_0;
     j3 \<leftarrow> intra_fd f3_d_0;
     let loss = sc_add loss (sc_div (sc_add (sc_add j1 j2) j3) 3);
     e1 \<leftarrow> inter_fd (rnd 0) (rnd 1) f1_d_0 final_layer;
     e2 \<leftarrow> inter_fd (rnd 2) (rnd 3) f2_d_0 final_layer;
     e3 \<leftarrow> inter_fd (rnd 4) (rnd 5) f3_d_0 final_layer;
     e4 \<leftarrow> inter_fd (rnd 6) (rnd 7) f1_0 final_layer;
     e5 \<leftarrow> inter_fd (rnd 8) (rnd 9) f2_0 final_layer;
     e6 \<leftarrow> inter_fd (rnd 10) (rnd 11) f3_0 final_layer;
     e7 \<leftarrow> inter_fd (rnd 12) (rnd 13) f4_0 final_layer;
     let loss = sc_add loss
       (sc_div (sc_add (sc_add (sc_add (sc_add (sc_add (sc_add e1 e2) e3) e4) e5) e6) e7) 7);
     let loss = sc_mul loss lambda_x;
     Some loss
   }"

text \<open>
  The loss as the specification words it: the intra-feature term averaged over all seven
  feature maps, plus the inter-feature term averaged over the seven pairs, scaled by the
  coefficient.
\<close>

definition KDloss_forward_spec ::
  "real \<Rightarrow> (nat \<Rightarrow> nat list) \<Rightarrow> tensor list \<Rightarrow> tensor list \<Rightarrow> tensor \<Rightarrow> scalar option" where
  "KDloss_forward_spec lambda_x rnd feature feature_decoder final_up = do {
     f1_0 \<leftarrow> py_get feature 0;
     f2_0 \<leftarrow> py_get feature 1;
     f3_0 \<leftarrow> py_get feature 2;
     f4_0 \<leftarrow> py_get feature 3;
     f1_d_0 \<leftarrow> py_get feature_decoder 0;
     f2_d_0 \<leftarrow> py_get feature_decoder 1;
     f3_d_0 \<leftarrow> py_get feature_decoder 2;
     i1 \<leftarrow> intra_fd f1_0;
     i2 \<leftarrow> intra_fd f2_0;
     i3 \<leftarrow> intra_fd f3_0;
     i4 \<leftarrow> intra_fd f4_0;
     j1 \<leftarrow> intra_fd f1_d_0;
     j2 \<leftarrow> intra_fd f2_d_0;
     j3 \<leftarrow> intra_fd f3_d_0;
     e1 \<leftarrow> inter_fd (rnd 0) (rnd 1) f1_d_0 final_up;
     e2 \<leftarrow> inter_fd (rnd 2) (rnd 3) f2_d_0 final_up;
     e3 \<leftarrow> inter_fd (rnd 4) (rnd 5) f3_d_0 final_up;
     e4 \<leftarrow> inter_fd (rnd 6) (rnd 7) f1_0 final_up;
     e5 \<leftarrow> inter_fd (rnd 8) (rnd 9) f2_0 final_up;
     e6 \<leftarrow> inter_fd (rnd 10) (rnd 11) f3_0 final_up;
     e7 \<leftarrow> inter_fd (rnd 12) (rnd 13) f4_0 final_up;
     Some (sc_mul
       (sc_add
          (sc_div (sc_add (sc_add (sc_add (sc_add (sc_add (sc_add i1 i2) i3) i4) j1) j2) j3) 7)
          (sc_div (sc_add (sc_add (sc_add (sc_add (sc_add (sc_add e1 e2) e3) e4) e5) e6) e7) 7))
       lambda_x)
   }"

subsection \<open>Concrete feature maps\<close>

text \<open>
  A map of one sample, two channels and one pixel with the entries 1 and 0; a 2-by-2 map
  of one channel; a 1-by-1 map of one channel; an all-zero map of five channels.
\<close>

definition feat2 :: tensor where
  "feat2 = \<lparr>dimN = 1, dimC = 2, dimH = 1, dimW = 1, elem = (\<lambda>n c h w. if c = 0 then 1 else 0)\<rparr>"



definition feat5 :: tensor where
  "feat5 = \<lparr>dimN = 1, dimC = 5, dimH = 1, dimW = 1, elem = (\<lambda>n c h w. 0)\<rparr>"

section \<open>Properties of the training driver\<close>

subsection \<open>Loop invariants\<close>

lemma logged_ok_extend:
  assumes ok: "logged_ok a m st"
    and l: "l = 0.4 * c + 0.6 * d"
  shows "logged_ok a m
     (st\<lparr>weights := w', opt_buf := buf', backprops := backprops st @ [l],
        scalars := scalars st @
          [((''info/lr'', iter_num st), lr_value (base_lr a) (iter_num st) m),
           ((''info/total_loss'', iter_num st), l),
           ((''info/dice_loss'', iter_num st), d),
           ((''info/loss_ce'', iter_num st), c)],
        iter_num := iter_num st + 1\<rparr>)"
  using ok unfolding logged_ok_def scalar_at_def l
  by (auto simp: less_Suc_eq nth_append)

lemma logged_ok_torch_save: "logged_ok a m (torch_save p st) = logged_ok a m st"
  by (simp add: logged_ok_def torch_save_def scalar_at_def)

lemma synapse_step_eq:
  assumes "cuda_available h" "m \<noteq> 0"
  shows "\<exists>w' buf'. synapse_step tc h a m st b = Inr
     (st\<lparr>weights := w', opt_buf := buf',
        backprops := backprops st @
          [0.4 * ce_loss tc (forward tc (weights st) (fst b)) (snd b)
            + 0.6 * dice_loss tc (num_classes a) (forward tc (weights st) (fst b)) (snd b)],
        scalars := scalars st @
          [((''info/lr'', iter_num st), lr_value (base_lr a) (iter_num st) m),
           ((''info/total_loss'', iter_num st),
              0.4 * ce_loss tc (forward tc (weights st) (fst b)) (snd b)
            + 0.6 * dice_loss tc (num_classes a) (forward tc (weights st) (fst b)) (snd b)),
           ((''info/dice_loss'', iter_num st),
              dice_loss tc (num_classes a) (forward tc (weights st) (fst b)) (snd b)),
           ((''info/loss_ce'', iter_num st), ce_loss tc (forward tc (weights st) (fst b)) (snd b))],
        iter_num := iter_num st + 1\<rparr>)"
  using assms unfolding synapse_step_def
  apply (simp add: Let_def poly_lr_def add_scalar_def split_beta)
  apply (rule exI, rule exI, rule refl)
  done

lemma synapse_step_ok:
  assumes "cuda_available h" "m \<noteq> 0" "logged_ok a m st"
  shows "\<exists>st'. synapse_step tc h a m st b = Inr st' \<and> logged_ok a m st' \<and>
           iter_num st' = iter_num st + 1 \<and> saved st' = saved st"
proof -
  from synapse_step_eq [OF assms(1,2), of tc a st b] obtain w' buf' where
    e: "synapse_step tc h a m st b = Inr
     (st\<lparr>weights := w', opt_buf := buf',
        backprops := backprops st @
          [0.4 * ce_loss tc (forward tc (weights st) (fst b)) (snd b)
            + 0.6 * dice_loss tc (num_classes a) (forward tc (weights st) (fst b)) (snd b)],
        scalars := scalars st @
          [((''info/lr'', iter_num st), lr_value (base_lr a) (iter_num st) m),
           ((''info/total_loss'', iter_num st),
              0.4 * ce_loss tc (forward tc (weights st) (fst b)) (snd b)
            + 0.6 * dice_loss tc (num_classes a) (forward tc (weights st) (fst b)) (snd b)),
           ((''info/dice_loss'', iter_num st),
              dice_loss tc (num_classes a) (forward tc (weights st) (fst b)) (snd b)),
           ((''info/loss_ce'', iter_num st), ce_loss tc (forward tc (weights st) (fst b)) (snd b))],
        iter_num := iter_num st + 1\<rparr>)" by blast
  show ?thesis
    unfolding e using logged_ok_extend [OF assms(3) refl] by simp
qed


lemma synapse_batches_ok:
  assumes "cuda_available h" "bs = [] \<or> m \<noteq> 0" "logged_ok a m st"
  shows "\<exists>st'. synapse_batches tc h a m bs st = Inr st' \<and> logged_ok a m st' \<and>
           iter_num st' = iter_num st + length bs \<and> saved st' = saved st"
  using assms
proof (induction bs arbitrary: st)
  case Nil
  then show ?case by simp
next
  case (Cons b bs)
  then have m: "m \<noteq> 0" by simp
  from synapse_step_ok [OF Cons.prems(1) m Cons.prems(3), of tc b] obtain st1 where
    s1: "synapse_step tc h a m st b = Inr st1" "logged_ok a m st1"
        "iter_num st1 = iter_num st + 1" "saved st1 = saved st" by blast
  from Cons.IH [OF Cons.prems(1) _ s1(2)] m obtain st2 where
    s2: "synapse_batches tc h a m bs st1 = Inr st2" "logged_ok a m st2"
        "iter_num st2 = iter_num st1 + length bs" "saved st2 = saved st1" by blast
  show ?case using s1 s2 by simp
qed

lemma synapse_checkpoint_ok:
  "\<exists>st'. synapse_checkpoint p mx e st = (st', mx - 1 \<le> e) \<and>
        logged_ok a m st' = logged_ok a m st \<and> iter_num st' = iter_num st \<and>
        fst ` set (saved st') = fst ` set (saved st) \<union>
          (if 80 < e \<or> mx - 1 \<le> e then {save_mode_path p e} else {})"
  by (auto simp: synapse_checkpoint_def Let_def torch_save_def logged_ok_def scalar_at_def)

lemma synapse_epochs_ok:
  assumes c: "cuda_available h"
  shows "0 \<le> i \<Longrightarrow> logged_ok a (max_epochs a * int (len ld)) st \<Longrightarrow>
     \<exists>st'. synapse_epochs tc ld h a p [i..max_epochs a - 1] st = Inr st' \<and>
        logged_ok a (max_epochs a * int (len ld)) st' \<and>
        iter_num st' = iter_num st + nat (max_epochs a - i) * len ld \<and>
        fst ` set (saved st') = fst ` set (saved st) \<union>
          save_mode_path p ` {e. i \<le> e \<and> e < max_epochs a \<and> (80 < e \<or> e = max_epochs a - 1)}"
proof (induction "nat (max_epochs a - i)" arbitrary: i st)
  case 0
  then have "[i..max_epochs a - 1] = []" by simp
  moreover have "{e. i \<le> e \<and> e < max_epochs a \<and> (80 < e \<or> e = max_epochs a - 1)} = {}"
    using 0 by auto
  ultimately show ?case using 0 by (simp only: synapse_epochs.simps) simp
next
  case (Suc n)
  let ?m = "max_epochs a * int (len ld)"
  from Suc.hyps(2) have le: "i \<le> max_epochs a - 1" by simp
  then have up: "[i..max_epochs a - 1] = i # [i + 1..max_epochs a - 1]"
    by (simp add: upto_rec1)
  have m: "map (batch ld i) [0..<len ld] = [] \<or> ?m \<noteq> 0"
    using le Suc.prems(1) by auto
  from synapse_batches_ok [OF c m Suc.prems(2), where tc = tc] obtain st1 where
    s1: "synapse_batches tc h a ?m (map (batch ld i) [0..<len ld]) st = Inr st1"
        "logged_ok a ?m st1" "iter_num st1 = iter_num st + len ld" "saved st1 = saved st"
    by auto
  from synapse_checkpoint_ok [of p "max_epochs a" i st1 a ?m] obtain st2 where
    s2: "synapse_checkpoint p (max_epochs a) i st1 = (st2, max_epochs a - 1 \<le> i)"
        "logged_ok a ?m st2" "iter_num st2 = iter_num st1"
        "fst ` set (saved st2) = fst ` set (saved st1) \<union>
          (if 80 < i \<or> max_epochs a - 1 \<le> i then {save_mode_path p i} else {})"
    using s1(2) by auto
  show ?case
  proof (cases "max_epochs a - 1 \<le> i")
    case True
    then have i: "i = max_epochs a - 1" using le by simp
    have "{e. i \<le> e \<and> e < max_epochs a \<and> (80 < e \<or> e = max_epochs a - 1)} = {i}"
      using i by auto
    moreover have "nat (max_epochs a - i) = 1" using i by simp
    ultimately show ?thesis using s1 s2 True up by simp
  next
    case False
    have n: "n = nat (max_epochs a - (i + 1))" using Suc.hyps(2) by simp
    from Suc.hyps(1) [OF n _ s2(2)] Suc.prems(1) obtain st3 where
      s3: "synapse_epochs tc ld h a p [i + 1..max_epochs a - 1] st2 = Inr st3"
          "logged_ok a ?m st3"
          "iter_num st3 = iter_num st2 + nat (max_epochs a - (i + 1)) * len ld"
          "fst ` set (saved st3) = fst ` set (saved st2) \<union>
             save_mode_path p ` {e. i + 1 \<le> e \<and> e < max_epochs a \<and> (80 < e \<or> e = max_epochs a - 1)}"
      by auto
    have set: "{e. i \<le> e \<and> e < max_epochs a \<and> (80 < e \<or> e = max_epochs a - 1)} =
       (if 80 < i then {i} else {}) \<union>
       {e. i + 1 \<le> e \<and> e < max_epochs a \<and> (80 < e \<or> e = max_epochs a - 1)}"
      using False le by auto
    have it: "nat (max_epochs a - i) = Suc (nat (max_epochs a - (i + 1)))"
      using False by simp
    show ?thesis
      unfolding up set it using s1 s2 s3 False by auto
  qed
qed

lemma assd_step_eq:
  assumes "cuda_available h" "m \<noteq> 0"
  shows "\<exists>w' buf'. assd_step tc h a m st b = Inr
     (st\<lparr>weights := w', opt_buf := buf',
        backprops := backprops st @
          [0.4 * ce_loss tc (forward tc (weights st) (unsqueeze_float tc (fst b))) (snd b)
            + 0.6 * dice_loss tc (num_classes a) (forward tc (weights st) (unsqueeze_float tc (fst b))) (snd b)],
        scalars := scalars st @
          [((''info/lr'', iter_num st), lr_value (base_lr a) (iter_num st) m),
           ((''info/total_loss'', iter_num st),
              0.4 * ce_loss tc (forward tc (weights st) (unsqueeze_float tc (fst b))) (snd b)
            + 0.6 * dice_loss tc (num_classes a) (forward tc (weights st) (unsqueeze_float tc (fst b))) (snd b)),
           ((''info/dice_loss'', iter_num st),
              dice_loss tc (num_classes a) (forward tc (weights st) (unsqueeze_float tc (fst b))) (snd b)),
           ((''info/loss_ce'', iter_num st), ce_loss tc (forward tc (weights st) (unsqueeze_float tc (fst b))) (snd b))],
        iter_num := iter_num st + 1\<rparr>)"
  using assms unfolding assd_step_def
  apply (simp add: Let_def poly_lr_def add_scalar_def split_beta)
  apply (rule exI, rule exI, rule refl)
  done

lemma assd_step_ok:
  assumes "cuda_available h" "m \<noteq> 0" "logged_ok a m st"
  shows "\<exists>st'. assd_step tc h a m st b = Inr st' \<and> logged_ok a m st' \<and>
           iter_num st' = iter_num st + 1 \<and> saved st' = saved st"
proof -
  from assd_step_eq [OF assms(1,2), of tc a st b] obtain w' buf' where
    e: "assd_step tc h a m st b = Inr
     (st\<lparr>weights := w', opt_buf := buf',
        backprops := backprops st @
          [0.4 * ce_loss tc (forward tc (weights st) (unsqueeze_float tc (fst b))) (snd b)
            + 0.6 * dice_loss tc (num_classes a) (forward tc (weights st) (unsqueeze_float tc (fst b))) (snd b)],
        scalars := scalars st @
          [((''info/lr'', iter_num st), lr_value (base_lr a) (iter_num st) m),
           ((''info/total_loss'', iter_num st),
              0.4 * ce_loss tc (forward tc (weights st) (unsqueeze_float tc (fst b))) (snd b)
            + 0.6 * dice_loss tc (num_classes a) (forward tc (weights st) (unsqueeze_float tc (fst b))) (snd b)),
           ((''info/dice_loss'', iter_num st),
              dice_loss tc (num_classes a) (forward tc (weights st) (unsqueeze_float tc (fst b))) (snd b)),
           ((''info/loss_ce'', iter_num st), ce_loss tc (forward tc (weights st) (unsqueeze_float tc (fst b))) (snd b))],
        iter_num := iter_num st + 1\<rparr>)" by blast
  show ?thesis
    unfolding e using logged_ok_extend [OF assms(3) refl] by simp
qed


lemma assd_batches_ok:
  assumes "cuda_available h" "bs = [] \<or> m \<noteq> 0" "logged_ok a m st"
  shows "\<exists>st'. assd_batches tc h a m bs st = Inr st' \<and> logged_ok a m st' \<and>
           iter_num st' = iter_num st + length bs \<and> saved st' = saved st"
  using assms
proof (induction bs arbitrary: st)
  case Nil
  then show ?case by simp
next
  case (Cons b bs)
  then have m: "m \<noteq> 0" by simp
  from assd_step_ok [OF Cons.prems(1) m Cons.prems(3), of tc b] obtain st1 where
    s1: "assd_step tc h a m st b = Inr st1" "logged_ok a m st1"
        "iter_num st1 = iter_num st + 1" "saved st1 = saved st" by blast
  from Cons.IH [OF Cons.prems(1) _ s1(2)] m obtain st2 where
    s2: "assd_batches tc h a m bs st1 = Inr st2" "logged_ok a m st2"
        "iter_num st2 = iter_num st1 + length bs" "saved st2 = saved st1" by blast
  show ?case using s1 s2 by simp
qed

lemma assd_checkpoint_ok:
  "\<exists>st'. assd_checkpoint p mx e st = (st', mx - 1 \<le> e) \<and>
        logged_ok a m st' = logged_ok a m st \<and> iter_num st' = iter_num st \<and>
        fst ` set (saved st') = fst ` set (saved st) \<union>
          (if 80 < e \<or> mx - 1 \<le> e then {save_mode_path p e} else {})"
  by (auto simp: assd_checkpoint_def Let_def torch_save_def logged_ok_def scalar_at_def)

lemma assd_epochs_ok:
  assumes c: "cuda_available h"
  shows "0 \<le> i \<Longrightarrow> logged_ok a (max_epochs a * int (len ld)) st \<Longrightarrow>
     \<exists>st'. assd_epochs tc ld h a p [i..max_epochs a - 1] st = Inr st' \<and>
        logged_ok a (max_epochs a * int (len ld)) st' \<and>
        iter_num st' = iter_num st + nat (max_epochs a - i) * len ld \<and>
        fst ` set (saved st') = fst ` set (saved st) \<union>
          save_mode_path p ` {e. i \<le> e \<and> e < max_epochs a \<and> (80 < e \<or> e = max_epochs a - 1)}"
proof (induction "nat (max_epochs a - i)" arbitrary: i st)
  case 0
  then have "[i..max_epochs a - 1] = []" by simp
  moreover have "{e. i \<le> e \<and> e < max_epochs a \<and> (80 < e \<or> e = max_epochs a - 1)} = {}"
    using 0 by auto
  ultimately show ?case using 0 by (simp only: assd_epochs.simps) simp
next
  case (Suc n)
  let ?m = "max_epochs a * int (len ld)"
  from Suc.hyps(2) have le: "i \<le> max_epochs a - 1" by simp
  then have up: "[i..max_epochs a - 1] = i # [i + 1..max_epochs a - 1]"
    by (simp add: upto_rec1)
  have m: "map (batch ld i) [0..<len ld] = [] \<or> ?m \<noteq> 0"
    using le Suc.prems(1) by auto
  from assd_batches_ok [OF c m Suc.prems(2), where tc = tc] obtain st1 where
    s1: "assd_batches tc h a ?m (map (batch ld i) [0..<len ld]) st = Inr st1"
        "logged_ok a ?m st1" "iter_num st1 = iter_num st + len ld" "saved st1 = saved st"
    by auto
  from assd_checkpoint_ok [of p "max_epochs a" i st1 a ?m] obtain st2 where
    s2: "assd_checkpoint p (max_epochs a) i st1 = (st2, max_epochs a - 1 \<le> i)"
        "logged_ok a ?m st2" "iter_num st2 = iter_num st1"
        "fst ` set (saved st2) = fst ` set (saved st1) \<union>
          (if 80 < i \<or> max_epochs a - 1 \<le> i then {save_mode_path p i} else {})"
    using s1(2) by auto
  show ?case
  proof (cases "max_epochs a - 1 \<le> i")
    case True
    then have i: "i = max_epochs a - 1" using le by simp
    have "{e. i \<le> e \<and> e < max_epochs a \<and> (80 < e \<or> e = max_epochs a - 1)} = {i}"
      using i by auto
    moreover have "nat (max_epochs a - i) = 1" using i by simp
    ultimately show ?thesis using s1 s2 True up by simp
  next
    case False
    have n: "n = nat (max_epochs a - (i + 1))" using Suc.hyps(2) by simp
    from Suc.hyps(1) [OF n _ s2(2)] Suc.prems(1) obtain st3 where
      s3: "assd_epochs tc ld h a p [i + 1..max_epochs a - 1] st2 = Inr st3"
          "logged_ok a ?m st3"
          "iter_num st3 = iter_num st2 + nat (max_epochs a - (i + 1)) * len ld"
          "fst ` set (saved st3) = fst ` set (saved st2) \<union>
             save_mode_path p ` {e. i + 1 \<le> e \<and> e < max_epochs a \<and> (80 < e \<or> e = max_epochs a - 1)}"
      by auto
    have set: "{e. i \<le> e \<and> e < max_epochs a \<and> (80 < e \<or> e = max_epochs a - 1)} =
       (if 80 < i then {i} else {}) \<union>
       {e. i + 1 \<le> e \<and> e < max_epochs a \<and> (80 < e \<or> e = max_epochs a - 1)}"
      using False le by auto
    have it: "nat (max_epochs a - i) = Suc (nat (max_epochs a - (i + 1)))"
      using False by simp
    show ?thesis
      unfolding up set it using s1 s2 s3 False by auto
  qed
qed

subsection \<open>Runs of the two trainers\<close>

lemma logged_ok_init:
  "logged_ok a m \<lparr>weights = w0, opt_lr = base_lr a, opt_buf = b0, iter_num = 0,
      scalars = [], backprops = [], saved = []\<rparr>"
  by (simp add: logged_ok_def)

lemma synapse_run_ok:
  assumes c: "cuda_available h" and b: "0 \<le> base_lr a"
  shows "\<exists>st. trainer_synapse tc ld h a w0 p = Inr st \<and>
        logged_ok a (max_epochs a * int (len ld)) st \<and>
        iter_num st = nat (max_epochs a) * len ld \<and>
        fst ` set (saved st) =
          save_mode_path p ` {e. 0 \<le> e \<and> e < max_epochs a \<and> (80 < e \<or> e = max_epochs a - 1)}"
  using synapse_epochs_ok [OF c order_refl logged_ok_init [of a "max_epochs a * int (len ld)" w0 "opt_init tc"], where tc = tc and p = p] c b
  by (simp add: trainer_synapse_def device_check_def)

lemma assd_run_ok:
  assumes c: "cuda_available h" and b: "0 \<le> base_lr a"
  shows "\<exists>st. trainer_assd tc ld h a w0 p = Inr st \<and>
        logged_ok a (max_epochs a * int (len ld)) st \<and>
        iter_num st = nat (max_epochs a) * len ld \<and>
        fst ` set (saved st) =
          save_mode_path p ` {e. 0 \<le> e \<and> e < max_epochs a \<and> (80 < e \<or> e = max_epochs a - 1)}"
  using assd_epochs_ok [OF c order_refl logged_ok_init [of a "max_epochs a * int (len ld)" w0 "opt_init tc"], where tc = tc and p = p] c b
  by (simp add: trainer_assd_def)

lemma str_int_81_89:
  "map str_int [81, 82, 83, 84, 85, 86, 87, 88, 89] =
     [''81'', ''82'', ''83'', ''84'', ''85'', ''86'', ''87'', ''88'', ''89'']"
  by code_simp

lemma save_mode_path_prefix:
  "save_mode_path p e =
     (if p = [] \<or> last p = CHR ''/'' then p else p @ ''/'') @ ''epoch_'' @ str_int e @ ''.pth''"
  by (simp add: save_mode_path_def os_path_join_def)

lemma epochs_90: "{e::int. 0 \<le> e \<and> e < 90 \<and> (80 < e \<or> e = 90 - 1)} = {81, 82, 83, 84, 85, 86, 87, 88, 89}"
  by auto

lemma card_ckpt_90: "card (save_mode_path p ` {81, 82, 83, 84, 85, 86, 87, 88, 89}) = 9"
  using str_int_81_89 by (simp add: save_mode_path_prefix card_insert_if)

lemma upto_0_0: "[0..(0::int)] = [0]" by (simp add: upto_rec1)

lemma lr_half: "lr_value (1 / 100) 1 2 < 1 / 100"
proof -
  have "(1 / 2 :: real) powr (9 / 10) < 1 powr (9 / 10)"
    by (rule powr_less_mono2) simp_all
  then show ?thesis by (simp add: lr_value_def)
qed

lemma demo_run:
  "\<exists>st. trainer_synapse demo_torch demo_loader demo_host demo_args 1 ''run'' = Inr st \<and>
     opt_lr st = 1 / 100 \<and> opt_buf st = [1 / 100, 1 / 100] \<and>
     scalar_at st ''info/lr'' 1 = Some (lr_value (1 / 100) 1 2) \<and>
     lr_value (1 / 100) 1 2 < 1 / 100"
  using lr_half
  by (simp add: trainer_synapse_def device_check_def demo_host_def demo_args_def demo_loader_def
      demo_torch_def upto_0_0 upt_rec synapse_step_def Let_def poly_lr_def add_scalar_def
      synapse_checkpoint_def torch_save_def scalar_at_def)

subsection \<open>The schedule\<close>

lemma lr_value_zero: "m \<noteq> 0 \<Longrightarrow> lr_value b 0 m = b"
  by (simp add: lr_value_def)

lemma lr_value_mono:
  assumes b: "0 \<le> b" and st: "s \<le> t" and tm: "int t < m"
  shows "lr_value b t m \<le> lr_value b s m"
proof -
  have m: "0 < real_of_int m" using tm by simp
  have "real t / real_of_int m \<le> 1"
    using tm m by (simp add: divide_le_eq)
  then have lo: "0 \<le> 1 - real t / real_of_int m" by simp
  have "real s / real_of_int m \<le> real t / real_of_int m"
    using st m by (simp add: divide_right_mono)
  then have le: "1 - real t / real_of_int m \<le> 1 - real s / real_of_int m" by simp
  have "(1 - real t / real_of_int m) powr (9 / 10) \<le> (1 - real s / real_of_int m) powr (9 / 10)"
    by (rule powr_mono2) (use lo le in simp_all)
  then show ?thesis
    unfolding lr_value_def using b by (rule mult_left_mono)
qed

lemma lr_value_last:
  assumes m: "0 < m"
  shows "lr_value b (nat (m - 1)) m = b / real_of_int m powr (9 / 10)"
proof -
  have "1 - real (nat (m - 1)) / real_of_int m = 1 / real_of_int m"
    using m by (simp add: field_simps)
  then show ?thesis
    using m by (simp add: lr_value_def powr_divide)
qed

lemma lr_value_last_tendsto: "(\<lambda>n. lr_value b (n - 1) (int n)) \<longlonglongrightarrow> 0"
proof -
  have "(\<lambda>n. real n powr - (9 / 10)) \<longlonglongrightarrow> 0"
    by (rule tendsto_neg_powr) (simp_all add: filterlim_real_sequentially)
  then have "(\<lambda>n. b * real n powr - (9 / 10)) \<longlonglongrightarrow> b * 0"
    by (rule tendsto_mult_left)
  moreover have "\<forall>\<^sub>F n in sequentially. b * real n powr - (9 / 10) = lr_value b (n - 1) (int n)"
  proof (rule eventually_sequentiallyI [of 1])
    fix n :: nat assume n: "1 \<le> n"
    then have "lr_value b (nat (int n - 1)) (int n) = b / real_of_int (int n) powr (9 / 10)"
      by (intro lr_value_last) simp
    moreover have "nat (int n - 1) = n - 1" by simp
    ultimately show "b * real n powr - (9 / 10) = lr_value b (n - 1) (int n)"
      by (simp add: powr_minus field_simps)
  qed
  ultimately show ?thesis
    by (simp add: tendsto_cong)
qed

text \<open>
  Claim C5. The learning-rate schedule is a function of the base rate, the step and the
  total number of steps only. For a non-negative base rate and a positive number of steps:
  at step 0 it is the base rate; it never increases from a step to a later one below the
  total; at the last step it is the base rate divided by the total to the power 0.9,
  which tends to 0 as the total grows.
\<close>

theorem lr_schedule_shape:
  assumes "0 \<le> b" "0 < m"
  shows "poly_lr b 0 m = Inr b \<and>
    (\<forall>s t. s \<le> t \<and> int t < m \<longrightarrow>
       (\<exists>u v. poly_lr b s m = Inr u \<and> poly_lr b t m = Inr v \<and> v \<le> u)) \<and>
    poly_lr b (nat (m - 1)) m = Inr (b / real_of_int m powr (9 / 10)) \<and>
    (\<lambda>n. lr_value b (n - 1) (int n)) \<longlonglongrightarrow> 0"
  using assms lr_value_zero [of m b] lr_value_mono [OF assms(1)] lr_value_last [OF assms(2), of b]
    lr_value_last_tendsto [of b]
  by (auto simp: poly_lr_def)

theorem lr_schedule_shape_witness:
  "(0::real) \<le> 1 / 100 \<and> (0::int) < 10 \<and> poly_lr (1 / 100) 0 10 = Inr (1 / 100) \<and>
   (\<exists>u v. poly_lr (1 / 100) 3 10 = Inr u \<and> poly_lr (1 / 100) 7 10 = Inr v \<and> v \<le> u) \<and>
   poly_lr (1 / 100) 9 10 = Inr (1 / 100 / 10 powr (9 / 10))"
  using lr_schedule_shape [of "1 / 100" 10] by auto

subsection \<open>Loss weighting, optimizer learning rate, device check\<close>

text \<open>
  Claim C1. For every batch processed by the inner loop of \<open>trainer_synapse\<close> and of
  \<open>trainer_assd\<close> (on a host with CUDA, with a non-zero number of scheduled steps, from any
  state), the step succeeds, and the value that is backpropagated and the value logged as
  \<open>info/total_loss\<close> at the current step both are 0.4 times the cross-entropy loss plus
  0.6 times the Dice loss of the network's output for that batch.
\<close>

theorem loss_is_weighted_sum:
  assumes "cuda_available h" "m \<noteq> 0"
  shows "(\<exists>st'. synapse_step tc h a m st (x, y) = Inr st' \<and>
            backprops st' = backprops st @
              [0.4 * ce_loss tc (forward tc (weights st) x) y
               + 0.6 * dice_loss tc (num_classes a) (forward tc (weights st) x) y] \<and>
            scalar_at st' ''info/total_loss'' (iter_num st) =
              Some (0.4 * ce_loss tc (forward tc (weights st) x) y
                    + 0.6 * dice_loss tc (num_classes a) (forward tc (weights st) x) y)) \<and>
         (\<exists>st'. assd_step tc h a m st (x, y) = Inr st' \<and>
            backprops st' = backprops st @
              [0.4 * ce_loss tc (forward tc (weights st) (unsqueeze_float tc x)) y
               + 0.6 * dice_loss tc (num_classes a) (forward tc (weights st) (unsqueeze_float tc x)) y] \<and>
            scalar_at st' ''info/total_loss'' (iter_num st) =
              Some (0.4 * ce_loss tc (forward tc (weights st) (unsqueeze_float tc x)) y
                    + 0.6 * dice_loss tc (num_classes a)
                        (forward tc (weights st) (unsqueeze_float tc x)) y))"
proof -
  from synapse_step_eq [OF assms, of tc a st "(x, y)"] obtain w' buf' where
    s: "synapse_step tc h a m st (x, y) = Inr
     (st\<lparr>weights := w', opt_buf := buf',
        backprops := backprops st @
          [0.4 * ce_loss tc (forward tc (weights st) x) y
            + 0.6 * dice_loss tc (num_classes a) (forward tc (weights st) x) y],
        scalars := scalars st @
          [((''info/lr'', iter_num st), lr_value (base_lr a) (iter_num st) m),
           ((''info/total_loss'', iter_num st),
              0.4 * ce_loss tc (forward tc (weights st) x) y
            + 0.6 * dice_loss tc (num_classes a) (forward tc (weights st) x) y),
           ((''info/dice_loss'', iter_num st),
              dice_loss tc (num_classes a) (forward tc (weights st) x) y),
           ((''info/loss_ce'', iter_num st), ce_loss tc (forward tc (weights st) x) y)],
        iter_num := iter_num st + 1\<rparr>)" by auto
  from assd_step_eq [OF assms, of tc a st "(x, y)"] obtain w'' buf'' where
    t: "assd_step tc h a m st (x, y) = Inr
     (st\<lparr>weights := w'', opt_buf := buf'',
        backprops := backprops st @
          [0.4 * ce_loss tc (forward tc (weights st) (unsqueeze_float tc x)) y
            + 0.6 * dice_loss tc (num_classes a) (forward tc (weights st) (unsqueeze_float tc x)) y],
        scalars := scalars st @
          [((''info/lr'', iter_num st), lr_value (base_lr a) (iter_num st) m),
           ((''info/total_loss'', iter_num st),
              0.4 * ce_loss tc (forward tc (weights st) (unsqueeze_float tc x)) y
            + 0.6 * dice_loss tc (num_classes a) (forward tc (weights st) (unsqueeze_float tc x)) y),
           ((''info/dice_loss'', iter_num st),
              dice_loss tc (num_classes a) (forward tc (weights st) (unsqueeze_float tc x)) y),
           ((''info/loss_ce'', iter_num st),
              ce_loss tc (forward tc (weights st) (unsqueeze_float tc x)) y)],
        iter_num := iter_num st + 1\<rparr>)" by auto
  show ?thesis unfolding s t by (simp add: scalar_at_def)
qed

theorem loss_is_weighted_sum_witness:
  "cuda_available demo_host \<and> (2::int) \<noteq> 0 \<and>
   (\<exists>st'. synapse_step demo_torch demo_host demo_args 2
        \<lparr>weights = 3, opt_lr = 1 / 100, opt_buf = [], iter_num = 0, scalars = [],
         backprops = [], saved = []\<rparr> (2, 1) = Inr st' \<and>
      backprops st' = [13] \<and> scalar_at st' ''info/total_loss'' 0 = Some 13) \<and>
   (\<exists>st'. assd_step demo_torch demo_host demo_args 2
        \<lparr>weights = 3, opt_lr = 1 / 100, opt_buf = [], iter_num = 0, scalars = [],
         backprops = [], saved = []\<rparr> (2, 1) = Inr st' \<and>
      backprops st' = [13] \<and> scalar_at st' ''info/total_loss'' 0 = Some 13)"
  using loss_is_weighted_sum [of demo_host 2 demo_torch demo_args
      "\<lparr>weights = 3, opt_lr = 1 / 100, opt_buf = [], iter_num = 0, scalars = [],
         backprops = [], saved = []\<rparr>" 2 1]
  by (simp add: demo_host_def demo_torch_def demo_args_def)

text \<open>
  Claim C2, evaluated on a run of one epoch with two batches and base rate 0.01. The
  optimizer whose buffer records the learning rate of each of its steps has stepped twice
  with 0.01, and its learning rate after the run still is 0.01, while the value computed
  and logged as \<open>info/lr\<close> at step 1 is \<open>0.01 * (1 - 1/2) ** 0.9\<close>, which is smaller: the
  schedule's value is logged, and never given to the optimizer.
\<close>

theorem optimizer_lr_never_updated:
  "\<exists>st. trainer_synapse demo_torch demo_loader demo_host demo_args 1 ''run'' = Inr st \<and>
     iter_num st = 2 \<and> opt_lr st = 1 / 100 \<and> opt_buf st = [1 / 100, 1 / 100] \<and>
     scalar_at st ''info/lr'' 1 = Some (lr_value (1 / 100) 1 2) \<and>
     lr_value (1 / 100) 1 2 < 1 / 100"
  using lr_half
  by (simp add: trainer_synapse_def device_check_def demo_host_def demo_args_def demo_loader_def
      demo_torch_def upto_0_0 upt_rec synapse_step_def Let_def poly_lr_def add_scalar_def
      synapse_checkpoint_def torch_save_def scalar_at_def)

text \<open>
  Claim C9. When neither CUDA nor XPU is available, the device check prints its diagnostic
  and leaves \<open>device\<close> unbound without raising; \<open>trainer_synapse\<close> goes on to the next
  statement, \<open>print(device)\<close>, where the unbound variable raises \<open>UnboundLocalError\<close>.
\<close>

theorem device_check_unbound:
  assumes "\<not> cuda_available h" "\<not> xpu_available h"
  shows "device_check h =
      ([''Neither CUDA nor XPU devices are available to demonstrate profiling on acceleration devices''],
       None) \<and>
    trainer_synapse tc ld h a w0 p = Inl UnboundLocalError"
  using assms by (simp add: device_check_def trainer_synapse_def)

theorem device_check_unbound_witness:
  "\<not> cuda_available cpu_host \<and> \<not> xpu_available cpu_host \<and>
   device_check cpu_host =
      ([''Neither CUDA nor XPU devices are available to demonstrate profiling on acceleration devices''],
       None) \<and>
   trainer_synapse demo_torch demo_loader cpu_host demo_args 1 ''run'' = Inl UnboundLocalError"
  using device_check_unbound [of cpu_host demo_torch demo_loader demo_args 1 "''run''"]
  by (simp add: cpu_host_def)

subsection \<open>Checkpoints\<close>

lemma assd_step_as_synapse:
  "assd_step tc h a m st b =
   synapse_step (tc\<lparr>forward := \<lambda>w x. forward tc w (unsqueeze_float tc x),
                   sgd_step := adamw_step tc\<rparr>) h a m st b"
  by (simp add: assd_step_def synapse_step_def Let_def split_beta)

lemma assd_batches_as_synapse:
  "assd_batches tc h a m bs st =
   synapse_batches (tc\<lparr>forward := \<lambda>w x. forward tc w (unsqueeze_float tc x),
                      sgd_step := adamw_step tc\<rparr>) h a m bs st"
  by (induction bs arbitrary: st) (simp_all add: assd_step_as_synapse split: sum.splits)

lemma assd_checkpoint_as_synapse:
  "assd_checkpoint p mx e st = synapse_checkpoint p mx e st"
  by (simp add: assd_checkpoint_def synapse_checkpoint_def)

lemma assd_epochs_as_synapse:
  "assd_epochs tc ld h a p es st =
   synapse_epochs (tc\<lparr>forward := \<lambda>w x. forward tc w (unsqueeze_float tc x),
                     sgd_step := adamw_step tc\<rparr>) ld h a p es st"
  by (induction es arbitrary: st)
    (simp_all add: assd_batches_as_synapse assd_checkpoint_as_synapse split: sum.splits prod.splits bool.splits)

lemma ckpt_names_90:
  "save_mode_path p ` {81, 82, 83, 84, 85, 86, 87, 88, 89} =
   (\<lambda>n. os_path_join p (''epoch_'' @ n @ ''.pth'')) `
     {''81'', ''82'', ''83'', ''84'', ''85'', ''86'', ''87'', ''88'', ''89''}"
  using str_int_81_89 by (simp add: save_mode_path_def)

text \<open>
  Claim C3. On a host with CUDA and with a non-negative base rate both trainers return,
  and the files written are those of the epochs \<open>e\<close> in \<open>0 \<le> e < max_epochs\<close> with
  \<open>e > 80\<close> or \<open>e = max_epochs - 1\<close>. For \<open>max_epochs = 90\<close> these are the nine files
  \<open>epoch_81.pth\<close> to \<open>epoch_89.pth\<close> in the snapshot directory, and no other.
\<close>

theorem checkpoint_policy:
  assumes "cuda_available h" "0 \<le> base_lr a"
  shows "\<exists>ss sa. trainer_synapse tc ld h a w0 p = Inr ss \<and> trainer_assd tc ld h a w0 p = Inr sa \<and>
     fst ` set (saved ss) =
       save_mode_path p ` {e. 0 \<le> e \<and> e < max_epochs a \<and> (80 < e \<or> e = max_epochs a - 1)} \<and>
     fst ` set (saved sa) =
       save_mode_path p ` {e. 0 \<le> e \<and> e < max_epochs a \<and> (80 < e \<or> e = max_epochs a - 1)} \<and>
     (max_epochs a = 90 \<longrightarrow>
        fst ` set (saved ss) = (\<lambda>n. os_path_join p (''epoch_'' @ n @ ''.pth'')) `
           {''81'', ''82'', ''83'', ''84'', ''85'', ''86'', ''87'', ''88'', ''89''} \<and>
        card (fst ` set (saved ss)) = 9 \<and>
        fst ` set (saved sa) = (\<lambda>n. os_path_join p (''epoch_'' @ n @ ''.pth'')) `
           {''81'', ''82'', ''83'', ''84'', ''85'', ''86'', ''87'', ''88'', ''89''} \<and>
        card (fst ` set (saved sa)) = 9)"
proof -
  from synapse_run_ok [OF assms, of tc ld w0 p] obtain ss where
    s: "trainer_synapse tc ld h a w0 p = Inr ss"
       "fst ` set (saved ss) =
         save_mode_path p ` {e. 0 \<le> e \<and> e < max_epochs a \<and> (80 < e \<or> e = max_epochs a - 1)}"
    by blast
  from assd_run_ok [OF assms, of tc ld w0 p] obtain sa where
    t: "trainer_assd tc ld h a w0 p = Inr sa"
       "fst ` set (saved sa) =
         save_mode_path p ` {e. 0 \<le> e \<and> e < max_epochs a \<and> (80 < e \<or> e = max_epochs a - 1)}"
    by blast
  have "max_epochs a = 90 \<Longrightarrow>
      {e. 0 \<le> e \<and> e < max_epochs a \<and> (80 < e \<or> e = max_epochs a - 1)}
        = {81, 82, 83, 84, 85, 86, 87, 88, 89}"
    using epochs_90 by simp
  then show ?thesis
    using s t card_ckpt_90 [of p] ckpt_names_90 [of p] by (simp del: image_insert)
qed

theorem checkpoint_policy_witness:
  "cuda_available demo_host \<and> 0 \<le> base_lr args90 \<and>
   (\<exists>ss sa. trainer_synapse demo_torch demo_loader demo_host args90 1 ''run'' = Inr ss \<and>
      trainer_assd demo_torch demo_loader demo_host args90 1 ''run'' = Inr sa \<and>
      fst ` set (saved ss) =
        {''run/epoch_81.pth'', ''run/epoch_82.pth'', ''run/epoch_83.pth'', ''run/epoch_84.pth'',
         ''run/epoch_85.pth'', ''run/epoch_86.pth'', ''run/epoch_87.pth'', ''run/epoch_88.pth'',
         ''run/epoch_89.pth''} \<and>
      card (fst ` set (saved ss)) = 9 \<and>
      fst ` set (saved sa) = fst ` set (saved ss))"
  using checkpoint_policy [of demo_host args90 demo_torch demo_loader 1 "''run''"]
  by (auto simp: demo_host_def args90_def os_path_join_def)

subsection \<open>The two trainers\<close>

lemma logged_okD:
  assumes "logged_ok a m st" "k < iter_num st"
  shows "\<exists>c d. scalar_at st ''info/loss_ce'' k = Some c \<and>
        scalar_at st ''info/dice_loss'' k = Some d \<and>
        scalar_at st ''info/total_loss'' k = Some (0.4 * c + 0.6 * d) \<and>
        backprops st ! k = 0.4 * c + 0.6 * d \<and>
        scalar_at st ''info/lr'' k = Some (lr_value (base_lr a) k m)"
  using assms unfolding logged_ok_def by blast

text \<open>
  Claim C10. On a host with CUDA, \<open>trainer_assd\<close> is \<open>trainer_synapse\<close> run with the
  network applied to the preprocessed input and with AdamW in place of SGD. With a
  non-negative base rate both return after \<open>max_epochs * len(trainloader)\<close> iterations;
  at every iteration \<open>k\<close> both have logged the learning rate
  \<open>base_lr * (1 - k / max_iterations) ** 0.9\<close> and a total loss, also backpropagated, of 0.4
  times the logged cross-entropy loss plus 0.6 times the logged Dice loss; and both have
  written the same checkpoint files, \<open>epoch_<e>.pth\<close> for the epochs \<open>e > 80\<close> and the last
  epoch.
\<close>

theorem trainers_same_step_semantics:
  assumes c: "cuda_available h" and b: "0 \<le> base_lr a"
  shows "trainer_assd tc ld h a w0 p =
       trainer_synapse (tc\<lparr>forward := \<lambda>w x. forward tc w (unsqueeze_float tc x),
                          sgd_step := adamw_step tc\<rparr>) ld h a w0 p \<and>
     (\<exists>ss sa. trainer_synapse tc ld h a w0 p = Inr ss \<and> trainer_assd tc ld h a w0 p = Inr sa \<and>
        iter_num ss = nat (max_epochs a) * len ld \<and> iter_num sa = nat (max_epochs a) * len ld \<and>
        (\<forall>k < nat (max_epochs a) * len ld.
           scalar_at ss ''info/lr'' k = Some ((base_lr a * (1 - real k / real_of_int (max_epochs a * int (len ld))) powr (9 / 10))) \<and>
           scalar_at sa ''info/lr'' k = Some ((base_lr a * (1 - real k / real_of_int (max_epochs a * int (len ld))) powr (9 / 10))) \<and>
           (\<exists>ce dice. scalar_at ss ''info/loss_ce'' k = Some ce \<and>
              scalar_at ss ''info/dice_loss'' k = Some dice \<and>
              scalar_at ss ''info/total_loss'' k = Some (0.4 * ce + 0.6 * dice) \<and>
              backprops ss ! k = 0.4 * ce + 0.6 * dice) \<and>
           (\<exists>ce dice. scalar_at sa ''info/loss_ce'' k = Some ce \<and>
              scalar_at sa ''info/dice_loss'' k = Some dice \<and>
              scalar_at sa ''info/total_loss'' k = Some (0.4 * ce + 0.6 * dice) \<and>
              backprops sa ! k = 0.4 * ce + 0.6 * dice)) \<and>
        fst ` set (saved ss) =
          save_mode_path p ` {e. 0 \<le> e \<and> e < max_epochs a \<and> (80 < e \<or> e = max_epochs a - 1)} \<and>
        fst ` set (saved sa) = fst ` set (saved ss))"
proof -
  have eq: "trainer_assd tc ld h a w0 p =
       trainer_synapse (tc\<lparr>forward := \<lambda>w x. forward tc w (unsqueeze_float tc x),
                          sgd_step := adamw_step tc\<rparr>) ld h a w0 p"
    using c by (simp add: trainer_assd_def trainer_synapse_def device_check_def
        assd_epochs_as_synapse)
  from synapse_run_ok [OF c b, of tc ld w0 p] obtain ss where
    s: "trainer_synapse tc ld h a w0 p = Inr ss"
       "logged_ok a (max_epochs a * int (len ld)) ss"
       "iter_num ss = nat (max_epochs a) * len ld"
       "fst ` set (saved ss) =
         save_mode_path p ` {e. 0 \<le> e \<and> e < max_epochs a \<and> (80 < e \<or> e = max_epochs a - 1)}"
    by blast
  from assd_run_ok [OF c b, of tc ld w0 p] obtain sa where
    t: "trainer_assd tc ld h a w0 p = Inr sa"
       "logged_ok a (max_epochs a * int (len ld)) sa"
       "iter_num sa = nat (max_epochs a) * len ld"
       "fst ` set (saved sa) =
         save_mode_path p ` {e. 0 \<le> e \<and> e < max_epochs a \<and> (80 < e \<or> e = max_epochs a - 1)}"
    by blast
  have "\<forall>k < nat (max_epochs a) * len ld.
           scalar_at ss ''info/lr'' k = Some ((base_lr a * (1 - real k / real_of_int (max_epochs a * int (len ld))) powr (9 / 10))) \<and>
           scalar_at sa ''info/lr'' k = Some ((base_lr a * (1 - real k / real_of_int (max_epochs a * int (len ld))) powr (9 / 10))) \<and>
           (\<exists>ce dice. scalar_at ss ''info/loss_ce'' k = Some ce \<and>
              scalar_at ss ''info/dice_loss'' k = Some dice \<and>
              scalar_at ss ''info/total_loss'' k = Some (0.4 * ce + 0.6 * dice) \<and>
              backprops ss ! k = 0.4 * ce + 0.6 * dice) \<and>
           (\<exists>ce dice. scalar_at sa ''info/loss_ce'' k = Some ce \<and>
              scalar_at sa ''info/dice_loss'' k = Some dice \<and>
              scalar_at sa ''info/total_loss'' k = Some (0.4 * ce + 0.6 * dice) \<and>
              backprops sa ! k = 0.4 * ce + 0.6 * dice)"
  proof (intro allI impI)
    fix k assume k: "k < nat (max_epochs a) * len ld"
    from logged_okD [OF s(2), unfolded lr_value_def] k s(3) obtain c1 d1 where
      "scalar_at ss ''info/loss_ce'' k = Some c1" "scalar_at ss ''info/dice_loss'' k = Some d1"
      "scalar_at ss ''info/total_loss'' k = Some (0.4 * c1 + 0.6 * d1)"
      "backprops ss ! k = 0.4 * c1 + 0.6 * d1"
      "scalar_at ss ''info/lr'' k = Some ((base_lr a * (1 - real k / real_of_int (max_epochs a * int (len ld))) powr (9 / 10)))"
      by (metis (no_types, lifting))
    moreover from logged_okD [OF t(2), unfolded lr_value_def] k t(3) obtain c2 d2 where
      "scalar_at sa ''info/loss_ce'' k = Some c2" "scalar_at sa ''info/dice_loss'' k = Some d2"
      "scalar_at sa ''info/total_loss'' k = Some (0.4 * c2 + 0.6 * d2)"
      "backprops sa ! k = 0.4 * c2 + 0.6 * d2"
      "scalar_at sa ''info/lr'' k = Some ((base_lr a * (1 - real k / real_of_int (max_epochs a * int (len ld))) powr (9 / 10)))"
      by (metis (no_types, lifting))
    ultimately show "scalar_at ss ''info/lr'' k = Some ((base_lr a * (1 - real k / real_of_int (max_epochs a * int (len ld))) powr (9 / 10))) \<and>
           scalar_at sa ''info/lr'' k = Some ((base_lr a * (1 - real k / real_of_int (max_epochs a * int (len ld))) powr (9 / 10))) \<and>
           (\<exists>ce dice. scalar_at ss ''info/loss_ce'' k = Some ce \<and>
              scalar_at ss ''info/dice_loss'' k = Some dice \<and>
              scalar_at ss ''info/total_loss'' k = Some (0.4 * ce + 0.6 * dice) \<and>
              backprops ss ! k = 0.4 * ce + 0.6 * dice) \<and>
           (\<exists>ce dice. scalar_at sa ''info/loss_ce'' k = Some ce \<and>
              scalar_at sa ''info/dice_loss'' k = Some dice \<and>
              scalar_at sa ''info/total_loss'' k = Some (0.4 * ce + 0.6 * dice) \<and>
              backprops sa ! k = 0.4 * ce + 0.6 * dice)"
      by blast
  qed
  with eq s t show ?thesis by (intro conjI exI [of _ ss] exI [of _ sa]) simp_all
qed

theorem trainers_same_step_semantics_witness:
  "cuda_available demo_host \<and> 0 \<le> base_lr demo_args \<and>
   trainer_assd demo_torch demo_loader demo_host demo_args 1 ''run'' =
     trainer_synapse (demo_torch\<lparr>forward := \<lambda>w x. forward demo_torch w (unsqueeze_float demo_torch x),
                        sgd_step := adamw_step demo_torch\<rparr>) demo_loader demo_host demo_args 1 ''run'' \<and>
   (\<exists>ss sa. trainer_synapse demo_torch demo_loader demo_host demo_args 1 ''run'' = Inr ss \<and>
      trainer_assd demo_torch demo_loader demo_host demo_args 1 ''run'' = Inr sa \<and>
      iter_num ss = 2 \<and> iter_num sa = 2 \<and>
      scalar_at ss ''info/lr'' 1 = Some ((1 / 100 * (1 / 2) powr (9 / 10))) \<and>
      scalar_at sa ''info/lr'' 1 = Some ((1 / 100 * (1 / 2) powr (9 / 10))) \<and>
      fst ` set (saved ss) = {''run/epoch_0.pth''} \<and>
      fst ` set (saved sa) = {''run/epoch_0.pth''})"
proof -
  have e: "{e::int. 0 \<le> e \<and> e < 1 \<and> (80 < e \<or> e = 1 - 1)} = {0}" by auto
  have n: "save_mode_path ''run'' 0 = ''run/epoch_0.pth''" by code_simp
  have l: "len demo_loader = 2" by (simp add: demo_loader_def)
  have a: "base_lr demo_args = 1 / 100" "max_epochs demo_args = 1" by (simp_all add: demo_args_def)
  have c: "cuda_available demo_host" by (simp add: demo_host_def)
  have b: "0 \<le> base_lr demo_args" by (simp add: a)
  note t = trainers_same_step_semantics [OF c b, of demo_torch demo_loader 1 "''run''",
      unfolded l a e]
  from t obtain ss sa where
    r: "trainer_synapse demo_torch demo_loader demo_host demo_args 1 ''run'' = Inr ss"
       "trainer_assd demo_torch demo_loader demo_host demo_args 1 ''run'' = Inr sa"
       "iter_num ss = nat 1 * 2" "iter_num sa = nat 1 * 2"
       "\<forall>k < nat 1 * 2.
           scalar_at ss ''info/lr'' k = Some ((1 / 100 * (1 - real k / real_of_int (1 * int 2)) powr (9 / 10))) \<and>
           scalar_at sa ''info/lr'' k = Some ((1 / 100 * (1 - real k / real_of_int (1 * int 2)) powr (9 / 10))) \<and>
           (\<exists>ce dice. scalar_at ss ''info/loss_ce'' k = Some ce \<and>
              scalar_at ss ''info/dice_loss'' k = Some dice \<and>
              scalar_at ss ''info/total_loss'' k = Some (0.4 * ce + 0.6 * dice) \<and>
              backprops ss ! k = 0.4 * ce + 0.6 * dice) \<and>
           (\<exists>ce dice. scalar_at sa ''info/loss_ce'' k = Some ce \<and>
              scalar_at sa ''info/dice_loss'' k = Some dice \<and>
              scalar_at sa ''info/total_loss'' k = Some (0.4 * ce + 0.6 * dice) \<and>
              backprops sa ! k = 0.4 * ce + 0.6 * dice)"
       "fst ` set (saved ss) = save_mode_path ''run'' ` {0}"
       "fst ` set (saved sa) = fst ` set (saved ss)"
    by blast
  from r(5) have "scalar_at ss ''info/lr'' 1 = Some ((1 / 100 * (1 / 2) powr (9 / 10))) \<and>
      scalar_at sa ''info/lr'' 1 = Some ((1 / 100 * (1 / 2) powr (9 / 10)))"
    by simp
  with r t c b n show ?thesis by simp
qed

section \<open>Properties of the network shapes\<close>

lemma conv_block_shape:
  assumes "0 < h" "0 < w" "training \<longrightarrow> n * h * w \<noteq> 1"
  shows "conv_block training i out (n, i, h, w) = Some (n, out, h, w)"
  using assms by (simp add: conv_block_def Conv2d_def BatchNorm2d_def ReLU_def)

lemma encoder_block_shape:
  assumes "H = 2 * h" "W = 2 * w" "0 < h" "0 < w"
  shows "encoder_block training i out (n, i, H, W) = Some ((n, out, H, W), (n, out, h, w))"
proof -
  have "n * H * W \<noteq> 1" using assms by simp
  then have "conv_block training i out (n, i, H, W) = Some (n, out, H, W)"
    using assms by (intro conv_block_shape) simp_all
  moreover have "(2 * h - (2 - 1) - 1) div 2 + 1 = h" "(2 * w - (2 - 1) - 1) div 2 + 1 = w"
    using assms by (cases h; simp)+
  ultimately show ?thesis
    using assms by (simp add: encoder_block_def MaxPool2d_def del: One_nat_def)
qed

lemma decoder_block_shape:
  assumes "H = 2 * h" "W = 2 * w" "0 < h" "0 < w"
  shows "decoder_block training i out (n, i, h, w) (n, out, H, W) = Some (n, out, H, W)"
proof -
  have "n * H * W \<noteq> 1" using assms by simp
  then have "conv_block training (out + out) out (n, out + out, H, W) = Some (n, out, H, W)"
    using assms by (intro conv_block_shape) simp_all
  moreover have "(h - 1) * 2 + (2 - 1) + 1 - 2 * 0 = 2 * h" "(w - 1) * 2 + (2 - 1) + 1 - 2 * 0 = 2 * w"
    using assms by (cases h; simp)+
  ultimately show ?thesis
    using assms by (simp add: decoder_block_def ConvTranspose2d_def cat1_def del: One_nat_def)
qed

lemma basic_layer_keep_shape:
  "basic_layer_keep (cfg\<lparr>dim := [c, c]\<rparr>) (n, c, h, w) = Some (n, c, h, w)"
  by (simp add: basic_layer_keep_def)

text \<open>
  The shape claim as the specification words it, for every input with \<open>H\<close> and \<open>W\<close>
  divisible by 16, fails on two kinds of input, with a \<open>BasicLayer\<close> that keeps shapes:
  in training mode an input of one sample of 16 by 16 pixels reaches the bottleneck with one
  value per channel, where batch normalisation raises; and an input with \<open>H = W = 0\<close> is
  rejected by the first convolution in either mode.
\<close>

theorem unet_output_shape_counterexample:
  "UNet_STA_forward basic_layer_keep True 3 9 (1, 3, 16, 16) = None \<and>
   UNet_STA_forward basic_layer_keep True 3 9 (1, 3, 0, 0) = None \<and>
   UNet_STA_forward basic_layer_keep False 3 9 (1, 3, 0, 0) = None"
  by (simp add: UNet_STA_forward_def encoder_block_def conv_block_def
      Conv2d_def BatchNorm2d_def ReLU_def MaxPool2d_def basic_layer_keep_def)

text \<open>
  Claim C4, amended. When \<open>BasicLayer\<close> returns a tensor of the shape of its input on the
  inputs that have the channel count it was built for, then for every input of shape
  \<open>(N, n_in, H, W)\<close> with \<open>H\<close> and \<open>W\<close> positive multiples of 16, and, if the module is in
  training mode, with more than one value per channel at the bottleneck (that is, not
  \<open>N * (H/16) * (W/16) = 1\<close>), the forward pass of \<open>UNet_STA(n_in, n_class)\<close> returns a
  tensor of shape \<open>(N, n_class, H, W)\<close>.
\<close>

theorem unet_output_shape:
  assumes bl: "\<forall>cfg n c h w. basic_layer (cfg\<lparr>dim := [c, c]\<rparr>) (n, c, h, w) = Some (n, c, h, w)"
    and h: "16 dvd H" and w: "16 dvd W" and hp: "0 < H" and wp: "0 < W"
    and tr: "training \<longrightarrow> N * (H div 16) * (W div 16) \<noteq> 1"
  shows "UNet_STA_forward basic_layer training n_in n_class (N, n_in, H, W) = Some (N, n_class, H, W)"
proof -
  from h hp obtain a where a: "H = 16 * a" "0 < a" by (auto elim: dvdE)
  from w wp obtain b where b: "W = 16 * b" "0 < b" by (auto elim: dvdE)
  have bl': "basic_layer \<lparr>num_layers = l, dim = [c, c], mamba_dim = m, n_iter = i,
                stoken_size = s, num_heads = k\<rparr> (n, c, x, y) = Some (n, c, x, y)"
    for l c m i s k n x y
    using bl [rule_format, where cfg = "\<lparr>num_layers = l, dim = [], mamba_dim = m, n_iter = i,
                stoken_size = s, num_heads = k\<rparr>" and c = c and n = n and h = x and w = y] by simp
  have e1: "encoder_block training n_in 64 (N, n_in, 16 * a, 16 * b)
      = Some ((N, 64, 16 * a, 16 * b), (N, 64, 8 * a, 8 * b))"
    using a b by (intro encoder_block_shape) simp_all
  have e2: "encoder_block training 64 128 (N, 64, 8 * a, 8 * b)
      = Some ((N, 128, 8 * a, 8 * b), (N, 128, 4 * a, 4 * b))"
    using a b by (intro encoder_block_shape) simp_all
  have e3: "encoder_block training 128 256 (N, 128, 4 * a, 4 * b)
      = Some ((N, 256, 4 * a, 4 * b), (N, 256, 2 * a, 2 * b))"
    using a b by (intro encoder_block_shape) simp_all
  have e4: "encoder_block training 256 512 (N, 256, 2 * a, 2 * b)
      = Some ((N, 512, 2 * a, 2 * b), (N, 512, a, b))"
    using a b by (intro encoder_block_shape) simp_all
  have bt: "conv_block training 512 1024 (N, 512, a, b) = Some (N, 1024, a, b)"
    using a b tr by (intro conv_block_shape) simp_all
  have d1: "decoder_block training 1024 512 (N, 1024, a, b) (N, 512, 2 * a, 2 * b)
      = Some (N, 512, 2 * a, 2 * b)"
    using a b by (intro decoder_block_shape) simp_all
  have d2: "decoder_block training 512 256 (N, 512, 2 * a, 2 * b) (N, 256, 4 * a, 4 * b)
      = Some (N, 256, 4 * a, 4 * b)"
    using a b by (intro decoder_block_shape) simp_all
  have d3: "decoder_block training 256 128 (N, 256, 4 * a, 4 * b) (N, 128, 8 * a, 8 * b)
      = Some (N, 128, 8 * a, 8 * b)"
    using a b by (intro decoder_block_shape) simp_all
  have d4: "decoder_block training 128 64 (N, 128, 8 * a, 8 * b) (N, 64, 16 * a, 16 * b)
      = Some (N, 64, 16 * a, 16 * b)"
    using a b by (intro decoder_block_shape) simp_all
  have out: "Conv2d 64 n_class 1 0 (N, 64, 16 * a, 16 * b) = Some (N, n_class, 16 * a, 16 * b)"
    using a b by (simp add: Conv2d_def)
  show ?thesis
    unfolding UNet_STA_forward_def a(1) b(1)
    by (simp only: e1 e2 e3 e4 bt d1 d2 d3 d4 out bl' bind.bind_lunit prod.case)
qed

theorem unet_output_shape_witness:
  "(\<forall>cfg n c h w. basic_layer_keep (cfg\<lparr>dim := [c, c]\<rparr>) (n, c, h, w) = Some (n, c, h, w)) \<and>
   (16::nat) dvd 224 \<and> (0::nat) < 224 \<and> (1::nat) * (224 div 16) * (224 div 16) \<noteq> 1 \<and>
   UNet_STA_forward basic_layer_keep True 3 9 (1, 3, 224, 224) = Some (1, 9, 224, 224)"
  using unet_output_shape [of basic_layer_keep 224 224 True 1 3 9]
  by (simp add: basic_layer_keep_shape)

text \<open>An extent that is not divisible by 16 makes a skip concatenation fail.\<close>

lemma unet_17: "UNet_STA_forward basic_layer_keep False 3 9 (1, 3, 17, 16) = None"
  by (simp add: UNet_STA_forward_def encoder_block_def decoder_block_def conv_block_def
      Conv2d_def BatchNorm2d_def ReLU_def MaxPool2d_def ConvTranspose2d_def cat1_def
      basic_layer_keep_def)

section \<open>Properties of the feature-distillation loss\<close>

subsection \<open>Mean squared error\<close>

lemma mse_loss_nonneg:
  assumes "mse_loss a b = Some (Num v)"
  shows "0 \<le> v"
proof -
  from assms obtain n c h w where
    "v = (\<Sum>i = 0..<n. \<Sum>j = 0..<c. \<Sum>k = 0..<h. \<Sum>l = 0..<w.
            (elem a (bidx (dimN a) i) (bidx (dimC a) j) (bidx (dimH a) k) (bidx (dimW a) l)
             - elem b (bidx (dimN b) i) (bidx (dimC b) j) (bidx (dimH b) k) (bidx (dimW b) l))\<^sup>2)
         / real (n * c * h * w)"
    by (auto simp: mse_loss_def split: bind_splits if_splits)
  then show ?thesis
    by (simp add: sum_nonneg)
qed

lemma feat2_intra: "intra_fd feat2 = Some (Num 1)"
  by (simp add: intra_fd_def feat2_def argsort_desc_def channel_means_def normalize_def
      select_channels_def slice_channels_def mse_loss_def broadcast_dim_def bidx_def
      upt_rec numeral_2_eq_2)

subsection \<open>Symmetry of \<open>inter_fd\<close>\<close>










subsection \<open>Sign of \<open>intra_fd\<close>\<close>

lemma select_argsort:
  "\<exists>g. select_channels (argsort_desc (channel_means (normalize f))) f = Some g \<and>
     dimN g = dimN f \<and> dimC g = dimC f \<and> dimH g = dimH f \<and> dimW g = dimW f"
  by (simp add: select_channels_def argsort_desc_def channel_means_def normalize_def)

lemma mse_loss_num_iff:
  "(\<exists>v. mse_loss a b = Some (Num v)) \<longleftrightarrow>
   (\<exists>n c h w. broadcast_dim (dimN a) (dimN b) = Some n \<and> broadcast_dim (dimC a) (dimC b) = Some c \<and>
      broadcast_dim (dimH a) (dimH b) = Some h \<and> broadcast_dim (dimW a) (dimW b) = Some w \<and>
      0 < n \<and> 0 < c \<and> 0 < h \<and> 0 < w)"
  by (auto simp: mse_loss_def split: bind_splits if_splits)

lemma halves_broadcast:
  "(\<exists>c. broadcast_dim (C div 2) (C - C div 2) = Some c \<and> 0 < c) \<longleftrightarrow> (even C \<and> 0 < C \<or> C = 3)"
proof -
  have "C div 2 = C - C div 2 \<longleftrightarrow> even C" by presburger
  moreover have "C - C div 2 = 1 \<longleftrightarrow> C = 1 \<or> C = 2" by presburger
  moreover have "C div 2 = 1 \<longleftrightarrow> C = 2 \<or> C = 3" by presburger
  moreover have "C div 2 = 0 \<longleftrightarrow> C = 0 \<or> C = 1" by presburger
  ultimately show ?thesis
    by (auto simp: broadcast_dim_def)
qed

text \<open>
  On a feature map of five channels the two halves have two and three channels, which
  cannot be broadcast against each other: \<open>F.mse_loss\<close> raises, and \<open>intra_fd\<close> returns no
  scalar.
\<close>

theorem intra_fd_counterexample: "intra_fd feat5 = None"
  by (simp add: intra_fd_def feat5_def argsort_desc_def channel_means_def normalize_def
      select_channels_def slice_channels_def mse_loss_def broadcast_dim_def bidx_def)

text \<open>
  Claim C7, amended. \<open>intra_fd\<close> returns a non-negative scalar exactly on the feature maps
  with a non-empty batch, non-empty spatial extents and a channel count that is even and
  positive, or 3 (where the half of one channel is broadcast against the half of two). On
  the other maps it raises or returns \<open>nan\<close>.
\<close>

theorem intra_fd_nonneg:
  "(\<exists>v. intra_fd f = Some (Num v) \<and> 0 \<le> v) \<longleftrightarrow>
   (0 < dimN f \<and> 0 < dimH f \<and> 0 < dimW f \<and> (even (dimC f) \<and> 0 < dimC f \<or> dimC f = 3))"
proof -
  from select_argsort [of f] obtain g where
    g: "select_channels (argsort_desc (channel_means (normalize f))) f = Some g"
       "dimN g = dimN f" "dimC g = dimC f" "dimH g = dimH f" "dimW g = dimW f" by blast
  let ?a = "slice_channels 0 (dimC g div 2) g"
  let ?b = "slice_channels (dimC g div 2) (dimC g) g"
  have i: "intra_fd f = mse_loss ?a ?b"
    by (simp add: intra_fd_def g(1) Let_def)
  have "(\<exists>v. intra_fd f = Some (Num v) \<and> 0 \<le> v) \<longleftrightarrow> (\<exists>v. mse_loss ?a ?b = Some (Num v))"
    unfolding i using mse_loss_nonneg by blast
  also have "\<dots> \<longleftrightarrow> (0 < dimN f \<and> 0 < dimH f \<and> 0 < dimW f \<and>
      (\<exists>c. broadcast_dim (dimC f div 2) (dimC f - dimC f div 2) = Some c \<and> 0 < c))"
    unfolding mse_loss_num_iff
    by (auto simp: slice_channels_def g broadcast_dim_def)
  also have "\<dots> \<longleftrightarrow> (0 < dimN f \<and> 0 < dimH f \<and> 0 < dimW f \<and>
      (even (dimC f) \<and> 0 < dimC f \<or> dimC f = 3))"
    unfolding halves_broadcast ..
  finally show ?thesis .
qed

theorem intra_fd_nonneg_witness:
  "(\<exists>v. intra_fd feat2 = Some (Num v) \<and> 0 \<le> v) \<and> intra_fd feat2 = Some (Num 1) \<and>
   \<not> (\<exists>v. intra_fd feat5 = Some (Num v) \<and> 0 \<le> v)"
  using intra_fd_nonneg [of feat2] intra_fd_nonneg [of feat5] feat2_intra
  by (simp add: feat2_def feat5_def)

subsection \<open>The combined loss\<close>

lemma feat2_inter: "inter_fd [0, 1] [0, 1] feat2 feat2 = Some (Num 0)"
  by (simp add: inter_fd_def Let_def feat2_def select_channels_def mse_loss_def
      broadcast_dim_def bidx_def)

text \<open>
  Seven feature maps of two channels with the entries 1 and 0, and the same map as the
  reference: every intra-feature term is 1 and every inter-feature term is 0. With
  coefficient 1 the code returns \<open>4/4 + 3/3 + 0 = 2\<close>, where the average of the
  intra-feature term over all seven maps, as the specification words it, gives 1.
\<close>

theorem KDloss_forward_counterexample:
  "KDloss_forward 1 (\<lambda>k. [0, 1]) [feat2, feat2, feat2, feat2] [feat2, feat2, feat2] feat2
     = Some (Num 2) \<and>
   KDloss_forward_spec 1 (\<lambda>k. [0, 1]) [feat2, feat2, feat2, feat2] [feat2, feat2, feat2] feat2
     = Some (Num 1)"
  by (simp add: KDloss_forward_def KDloss_forward_spec_def py_get_def feat2_intra feat2_inter
      del: One_nat_def)

text \<open>
  Claim C6, amended. Given the list of four encoder maps, the list of three decoder maps
  and the reference map, \<open>KDloss.forward\<close> returns the mean of the intra-feature term over
  the four encoder maps, plus its mean over the three decoder maps, plus the mean of the
  inter-feature term over the seven pairs of a map and the reference, the sum scaled by
  \<open>lambda_x\<close> (when all fourteen terms are numbers).
\<close>

theorem KDloss_forward_value:
  assumes "intra_fd f1 = Some (Num i1)" "intra_fd f2 = Some (Num i2)"
    "intra_fd f3 = Some (Num i3)" "intra_fd f4 = Some (Num i4)"
    "intra_fd d1 = Some (Num j1)" "intra_fd d2 = Some (Num j2)" "intra_fd d3 = Some (Num j3)"
    "inter_fd (rnd 0) (rnd 1) d1 final_up = Some (Num e1)"
    "inter_fd (rnd 2) (rnd 3) d2 final_up = Some (Num e2)"
    "inter_fd (rnd 4) (rnd 5) d3 final_up = Some (Num e3)"
    "inter_fd (rnd 6) (rnd 7) f1 final_up = Some (Num e4)"
    "inter_fd (rnd 8) (rnd 9) f2 final_up = Some (Num e5)"
    "inter_fd (rnd 10) (rnd 11) f3 final_up = Some (Num e6)"
    "inter_fd (rnd 12) (rnd 13) f4 final_up = Some (Num e7)"
  shows "KDloss_forward lambda_x rnd [f1, f2, f3, f4] [d1, d2, d3] final_up =
     Some (Num (((i1 + i2 + i3 + i4) / 4 + (j1 + j2 + j3) / 3
                 + (e1 + e2 + e3 + e4 + e5 + e6 + e7) / 7) * lambda_x))"
  using assms by (simp add: KDloss_forward_def py_get_def)

theorem KDloss_forward_value_witness:
  "intra_fd feat2 = Some (Num 1) \<and> inter_fd [0, 1] [0, 1] feat2 feat2 = Some (Num 0) \<and>
   KDloss_forward 3 (\<lambda>k. [0, 1]) [feat2, feat2, feat2, feat2] [feat2, feat2, feat2] feat2
     = Some (Num (((1 + 1 + 1 + 1) / 4 + (1 + 1 + 1) / 3 + (0 + 0 + 0 + 0 + 0 + 0 + 0) / 7) * 3))"
  using KDloss_forward_value [of feat2 1 feat2 1 feat2 1 feat2 1 feat2 1 feat2 1 feat2 1
      "\<lambda>k. [0, 1]" feat2 0 0 0 0 0 0 0 3] feat2_intra feat2_inter
  by (simp del: One_nat_def)

end
